theory Spec2Isabelle
  imports Complex_Main "HOL-Library.Sublist" "HOL-Library.Multiset"
begin

section \<open>JavaScript values used by the pipeline\<close>

text \<open>
  Fields documented as \<^verbatim>\<open>?string\<close> hold \<^verbatim>\<open>null\<close> (the class default),
  \<^verbatim>\<open>undefined\<close> (an absent JSON property read with \<^verbatim>\<open>?.\<close>) or a string.
  Strings are byte lists.
\<close>

datatype jstr = Null | Undefined | Str string

text \<open>Truthiness, as tested by \<^verbatim>\<open>if (x)\<close>, \<^verbatim>\<open>!x\<close> and \<^verbatim>\<open>x && y\<close>.\<close>

fun truthy :: "jstr \<Rightarrow> bool" where
  "truthy (Str s) = (s \<noteq> [])"
| "truthy Null = False"
| "truthy Undefined = False"


text \<open>
  Numbers: a finite double is a rational; comparisons with \<^verbatim>\<open>NaN\<close> are false.
\<close>

datatype jsnum = NaN | Infinity | NegInfinity | Fin rat

fun js_less :: "jsnum \<Rightarrow> jsnum \<Rightarrow> bool" where
  "js_less (Fin a) (Fin b) = (a < b)"
| "js_less (Fin a) Infinity = True"
| "js_less NegInfinity (Fin b) = True"
| "js_less NegInfinity Infinity = True"
| "js_less _ _ = False"

text \<open>\<^verbatim>\<open>a >= b\<close>.\<close>

definition js_ge :: "jsnum \<Rightarrow> jsnum \<Rightarrow> bool" where
  "js_ge a b = (a \<noteq> NaN \<and> b \<noteq> NaN \<and> \<not> js_less a b)"

text \<open>\<^verbatim>\<open>group.length\<close> as a number.\<close>

definition len :: "'a list \<Rightarrow> jsnum" where
  "len xs = Fin (of_nat (length xs))"

text \<open>
  The text a template literal or a property key makes of a \<^verbatim>\<open>?string\<close> value.
\<close>

fun key_of :: "jstr \<Rightarrow> string" where
  "key_of Null = ''null''"
| "key_of Undefined = ''undefined''"
| "key_of (Str s) = s"

text \<open>
  Exceptions are values. The text of a template literal is the list of its pieces: the
  values interpolated into it are kept as values, so that no number formatting is
  modelled. \<open>Error m\<close> is \<^verbatim>\<open>new Error(m)\<close>.
\<close>

datatype error = TypeError | RangeError | AssertionError | Error "piece list" | ENOENT | EISDIR
  and piece = Lit string | Val jstr | Num jsnum | Count nat | Thrown error

text \<open>What is handed to the logger: the level and the message.\<close>

datatype level = Trace | Info | Warn | Err

type_synonym log_entry = "level \<times> piece list"

text \<open>\<^verbatim>\<open>s.includes(sub)\<close>: \<^verbatim>\<open>sub\<close> occurs in \<^verbatim>\<open>s\<close> as a contiguous run.\<close>

fun str_includes :: "string \<Rightarrow> string \<Rightarrow> bool" where
  "str_includes [] sub = (sub = [])"
| "str_includes (c # cs) sub = (prefix sub (c # cs) \<or> str_includes cs sub)"

text \<open>\<^verbatim>\<open>s.replace(' ', 'T')\<close> with a string pattern: only the first occurrence.\<close>

fun replace_space :: "string \<Rightarrow> string" where
  "replace_space [] = []"
| "replace_space (c # cs) = (if c = CHR '' '' then CHR ''T'' # cs else c # replace_space cs)"

section \<open>Data model (index.types.js)\<close>

record ArchiveItCrawledUrl =
  seedId :: "int option"
  url :: jstr
  timestamp :: jstr
  title :: jstr

record ArchiveItWARCReference =
  downloadUrl :: jstr
  downloaded :: bool
  filename :: jstr
  remoteSHA1Hash :: jstr
  localSHA1Hash :: jstr
  crawlId :: "int option"
  crawledUrls :: "ArchiveItCrawledUrl list"

text \<open>An entry of \<^verbatim>\<open>this.pages\<close>: the object literal \<^verbatim>\<open>{ url, title, ts }\<close>.\<close>

record WACZPage =
  page_url :: jstr
  page_title :: jstr
  ts :: jstr

section \<open>The Date object of the runtime\<close>

text \<open>
  \<^verbatim>\<open>new Date(s)\<close> and \<^verbatim>\<open>toISOString()\<close> belong to the JavaScript runtime, not to the
  repository: they are parameters of the model. \<open>Date_parse\<close> gives the time value in
  milliseconds, \<open>None\<close> for an Invalid Date, on which \<^verbatim>\<open>toISOString()\<close> throws a
  RangeError.
\<close>

record js_date =
  Date_parse :: "string \<Rightarrow> int option"
  toISOString :: "int \<Rightarrow> string"

section \<open>generatePagesList (index.js, 715-757)\<close>

definition MISSING_URLS_PATCH :: string where
  "MISSING_URLS_PATCH = ''MISSING_URLS_PATCH''"

text \<open>
  \<^verbatim>\<open>formatTimestamp\<close>: the whole body is inside \<^verbatim>\<open>try\<close>, every exception (a
  \<^verbatim>\<open>replace\<close> on null or undefined, the RangeError of an Invalid Date) is caught and
  the function returns \<^verbatim>\<open>null\<close>. \<^verbatim>\<open>split('.')[0]\<close> is the text before the first dot.
\<close>

definition formatTimestamp :: "js_date \<Rightarrow> jstr \<Rightarrow> jstr" where
  "formatTimestamp rt t =
     (case t of
        Str s \<Rightarrow>
          (case Date_parse rt (replace_space s @ ''Z'') of
             None \<Rightarrow> Null
           | Some ms \<Rightarrow> Str (takeWhile (\<lambda>c. c \<noteq> CHR ''.'') (toISOString rt ms) @ ''Z''))
      | _ \<Rightarrow> Null)"

text \<open>The inner loop over \<^verbatim>\<open>entry.crawledUrls\<close>; nothing in it can throw.\<close>

fun pages_of_crawls :: "js_date \<Rightarrow> ArchiveItCrawledUrl list \<Rightarrow> WACZPage list" where
  "pages_of_crawls rt [] = []"
| "pages_of_crawls rt (crawl # crawls) =
     (if \<not> truthy (title crawl) then pages_of_crawls rt crawls
      else \<lparr>page_url = url crawl, page_title = title crawl,
             ts = formatTimestamp rt (timestamp crawl)\<rparr> # pages_of_crawls rt crawls)"

text \<open>
  The outer loop over \<^verbatim>\<open>this.WARCs\<close>, with the pages pushed so far. \<^verbatim>\<open>filename.includes\<close>
  throws a TypeError when the filename is null or undefined: the loop stops there and the
  pages pushed before stay in \<^verbatim>\<open>this.pages\<close>. \<^verbatim>\<open>crawledUrls\<close> is an array, which is
  truthy even when empty, so the \<^verbatim>\<open>!entry.crawledUrls\<close> test never skips.
\<close>

fun pages_loop ::
  "js_date \<Rightarrow> ArchiveItWARCReference list \<Rightarrow> WACZPage list \<Rightarrow> WACZPage list \<times> error option" where
  "pages_loop rt [] acc = (acc, None)"
| "pages_loop rt (entry # entries) acc =
     (case filename entry of
        Str f \<Rightarrow>
          if str_includes f MISSING_URLS_PATCH then pages_loop rt entries acc
          else pages_loop rt entries (acc @ pages_of_crawls rt (crawledUrls entry))
      | _ \<Rightarrow> (acc, Some TypeError))"

text \<open>\<^verbatim>\<open>generatePagesList\<close> on the WARC list: the new \<^verbatim>\<open>this.pages\<close> and what was thrown.\<close>

definition generatePagesList ::
  "js_date \<Rightarrow> ArchiveItWARCReference list \<Rightarrow> WACZPage list \<times> error option" where
  "generatePagesList rt warcs = pages_loop rt warcs []"


section \<open>The collection folder\<close>

text \<open>
  The local file system as far as the pipeline sees it: the entries of the collection
  folder, in the order \<^verbatim>\<open>readdir\<close> lists them. A path
  \<^verbatim>\<open>`${this.collectionPath}${filename}`\<close> is the entry named \<^verbatim>\<open>filename\<close>; names that are
  empty or hold a path separator name nothing in the folder. \<^verbatim>\<open>rm\<close> is called without
  options: it fails on a missing entry and on a directory.
\<close>

datatype node = File string | Directory

type_synonym folder = "(string \<times> node) list"

definition readdir :: "folder \<Rightarrow> string list" where
  "readdir d = map fst d"

definition access :: "folder \<Rightarrow> string \<Rightarrow> error + unit" where
  "access d name = (case map_of d name of None \<Rightarrow> Inl ENOENT | Some _ \<Rightarrow> Inr ())"

definition readFile :: "folder \<Rightarrow> string \<Rightarrow> error + string" where
  "readFile d name =
     (case map_of d name of
        None \<Rightarrow> Inl ENOENT
      | Some Directory \<Rightarrow> Inl EISDIR
      | Some (File c) \<Rightarrow> Inr c)"

definition rm :: "folder \<Rightarrow> string \<Rightarrow> error + folder" where
  "rm d name =
     (case map_of d name of
        None \<Rightarrow> Inl ENOENT
      | Some Directory \<Rightarrow> Inl EISDIR
      | Some (File c) \<Rightarrow> Inr (filter (\<lambda>e. fst e \<noteq> name) d))"

definition appendFile :: "folder \<Rightarrow> string \<Rightarrow> string \<Rightarrow> error + folder" where
  "appendFile d name chunk =
     (case map_of d name of
        None \<Rightarrow> Inr (d @ [(name, File chunk)])
      | Some Directory \<Rightarrow> Inl EISDIR
      | Some (File c) \<Rightarrow>
          Inr (map (\<lambda>e. if fst e = name then (name, File (c @ chunk)) else e) d))"

section \<open>The Preparator object (index.js, 25-78)\<close>

text \<open>
  The fields of the class, the collection folder on disk (\<open>folder\<close>) and what the logger
  has received (\<open>logged\<close>, oldest first).
\<close>

record Preparator =
  username :: jstr
  password :: jstr
  outputPath :: jstr
  collectionPath :: jstr
  WACZPath :: jstr
  collectionTitle :: jstr
  collectionDescription :: jstr
  collectionId :: jsnum
  concurrency :: jsnum
  signingUrl :: jstr
  signingToken :: jstr
  WARCs :: "ArchiveItWARCReference list"
  pages :: "WACZPage list"
  folder :: folder
  logged :: "log_entry list"

definition log_to :: "level \<Rightarrow> piece list \<Rightarrow> Preparator \<Rightarrow> Preparator" where
  "log_to l m st = st\<lparr>logged := logged st @ [(l, m)]\<rparr>"

text \<open>A stage of the pipeline: the object after the call and what the call threw.\<close>

type_synonym stage = "Preparator \<Rightarrow> Preparator \<times> error option"

section \<open>deleteLooseWARCs (index.js, 592-608)\<close>

text \<open>
  \<^verbatim>\<open>filename in inCollection\<close> also finds the properties a plain object inherits from
  \<^verbatim>\<open>Object.prototype\<close>.
\<close>

definition Object_prototype :: "string list" where
  "Object_prototype = [''constructor'', ''__defineGetter__'', ''__defineSetter__'',
     ''hasOwnProperty'', ''__lookupGetter__'', ''__lookupSetter__'', ''isPrototypeOf'',
     ''propertyIsEnumerable'', ''toString'', ''valueOf'', ''__proto__'', ''toLocaleString'']"

definition in_object :: "string list \<Rightarrow> string \<Rightarrow> bool" where
  "in_object keys name = (name \<in> set keys \<or> name \<in> set Object_prototype)"

text \<open>
  The loop over the listing that \<^verbatim>\<open>readdir\<close> returned: an entry is kept when it ends
  with \<^verbatim>\<open>.warc.gz\<close> and is a key of \<^verbatim>\<open>inCollection\<close>; every other entry is logged and
  removed. A failing \<^verbatim>\<open>rm\<close> ends the loop with its error.
\<close>

fun deleteLoose_loop :: "string list \<Rightarrow> string list \<Rightarrow> Preparator \<Rightarrow> Preparator \<times> error option" where
  "deleteLoose_loop keys [] st = (st, None)"
| "deleteLoose_loop keys (name # names) st =
     (if suffix ''.warc.gz'' name \<and> in_object keys name then deleteLoose_loop keys names st
      else
        let st1 = log_to Info [Lit name, Lit '': present on disk but not in collection, will be deleted.''] st
        in case rm (folder st1) name of
             Inl e \<Rightarrow> (st1, Some e)
           | Inr d \<Rightarrow> deleteLoose_loop keys names (st1\<lparr>folder := d\<rparr>))"

definition deleteLooseWARCs :: stage where
  "deleteLooseWARCs st =
     deleteLoose_loop (map (\<lambda>entry. key_of (filename entry)) (WARCs st)) (readdir (folder st)) st"

section \<open>checkWARCsHashes (index.js, 617-645)\<close>

text \<open>
  One iteration of the loop, on one entry: the entry, the folder and the log after it, and
  the error of a failing \<^verbatim>\<open>rm\<close>, which leaves the function. \<open>sha1\<close> is the hex digest
  of the runtime's \<^verbatim>\<open>crypto\<close> module. When \<^verbatim>\<open>readFile\<close> throws, \<^verbatim>\<open>localSHA1Hash\<close> keeps
  the value it had.
\<close>

definition check_entry ::
  "(string \<Rightarrow> string) \<Rightarrow> ArchiveItWARCReference \<Rightarrow> folder \<Rightarrow> log_entry list
     \<Rightarrow> ArchiveItWARCReference \<times> folder \<times> log_entry list \<times> error option" where
  "check_entry sha1 entry d lg =
     (let filepath = key_of (filename entry);
          e1 = entry\<lparr>downloaded := True\<rparr>
      in case access d filepath of
           Inl _ \<Rightarrow> (e1\<lparr>downloaded := False\<rparr>, d, lg, None)
         | Inr _ \<Rightarrow>
             let lg1 = lg @ [(Info, [Val (filename entry), Lit '': present on disk, checking hash.''])];
                 (e2, lg2) =
                   (case readFile d filepath of
                      Inr content \<Rightarrow> (e1\<lparr>localSHA1Hash := Str (sha1 content)\<rparr>, lg1)
                    | Inl err \<Rightarrow>
                        (e1\<lparr>downloaded := False\<rparr>,
                         lg1 @ [(Trace, [Thrown err]),
                                (Err, [Val (filename entry),
                                       Lit '': error occurred while calculating SHA-1 hash.''])]))
             in if truthy (localSHA1Hash e2) \<and> localSHA1Hash e2 \<noteq> remoteSHA1Hash e2 then
                  let lg3 = lg2 @ [(Err, [Val (filename entry),
                                     Lit '': remote and local SHA-1 hash mismatch. Deleting local copy.''])]
                  in case rm d filepath of
                       Inl err \<Rightarrow> (e2, d, lg3, Some err)
                     | Inr d' \<Rightarrow> (e2\<lparr>downloaded := False\<rparr>, d', lg3, None)
                else (e2, d, lg2, None))"

fun check_loop ::
  "(string \<Rightarrow> string) \<Rightarrow> ArchiveItWARCReference list \<Rightarrow> folder \<Rightarrow> log_entry list
     \<Rightarrow> ArchiveItWARCReference list \<times> folder \<times> log_entry list \<times> error option" where
  "check_loop sha1 [] d lg = ([], d, lg, None)"
| "check_loop sha1 (entry # entries) d lg =
     (case check_entry sha1 entry d lg of
        (entry', d', lg', Some err) \<Rightarrow> (entry' # entries, d', lg', Some err)
      | (entry', d', lg', None) \<Rightarrow>
          (case check_loop sha1 entries d' lg' of
             (entries', r) \<Rightarrow> (entry' # entries', r)))"

definition checkWARCsHashes :: "(string \<Rightarrow> string) \<Rightarrow> stage" where
  "checkWARCsHashes sha1 st =
     (case check_loop sha1 (WARCs st) (folder st) (logged st) of
        (warcs, d, lg, err) \<Rightarrow> (st\<lparr>WARCs := warcs, folder := d, logged := lg\<rparr>, err))"

section \<open>The constructor (index.js, 91-107, 241-312)\<close>

text \<open>The primitive values an option can hold.\<close>

datatype jsval = JUndefined | JNull | JBool bool | JNumber jsnum | JString string

fun truthy_val :: "jsval \<Rightarrow> bool" where
  "truthy_val JUndefined = False"
| "truthy_val JNull = False"
| "truthy_val (JBool b) = b"
| "truthy_val (JNumber n) = (n \<noteq> NaN \<and> n \<noteq> Fin 0)"
| "truthy_val (JString s) = (s \<noteq> [])"

text \<open>
  What the constructor asks of the runtime and of the host: the working directory
  (\<^verbatim>\<open>process.env.PWD\<close>), what \<^verbatim>\<open>accessSync\<close>, \<^verbatim>\<open>lstatSync\<close> and the assertion on
  \<^verbatim>\<open>isDirectory()\<close> throw on a path (\<open>None\<close> for a writable directory),
  \<^verbatim>\<open>new URL(s).href\<close> (\<open>None\<close> when it throws),
  the number a string converts to, and the text of a value in a template literal.
\<close>

record host =
  PWD :: jstr
  directory_error :: "string \<Rightarrow> error option"
  URL_href :: "jsval \<Rightarrow> string option"
  StringToNumber :: "string \<Rightarrow> jsnum"
  ToString :: "jsval \<Rightarrow> string"

text \<open>\<^verbatim>\<open>Number(v)\<close>.\<close>

fun Number :: "host \<Rightarrow> jsval \<Rightarrow> jsnum" where
  "Number h JUndefined = NaN"
| "Number h JNull = Fin 0"
| "Number h (JBool b) = (if b then Fin 1 else Fin 0)"
| "Number h (JNumber n) = n"
| "Number h (JString s) = StringToNumber h s"

text \<open>
  A logger passes the constructor's test when its four methods are functions.
\<close>

record logger =
  has_trace :: bool
  has_info :: bool
  has_warn :: bool
  has_error :: bool

record PreparatorOptions =
  opt_username :: jsval
  opt_password :: jsval
  opt_collectionId :: jsval
  opt_outputPath :: jsval
  opt_concurrency :: jsval
  opt_signingUrl :: jsval
  opt_signingToken :: jsval
  opt_log :: "logger option"

text \<open>\<^verbatim>\<open>trim()\<close>, on the ASCII white space.\<close>

definition is_space :: "char \<Rightarrow> bool" where
  "is_space c = (c \<in> set [CHR '' '', CHR 0x09, CHR 0x0A, CHR 0x0B, CHR 0x0C, CHR 0x0D])"

definition trim :: "string \<Rightarrow> string" where
  "trim s = rev (dropWhile is_space (rev (dropWhile is_space s)))"

text \<open>The object as the class fields initialise it.\<close>

definition new_object :: "host \<Rightarrow> Preparator" where
  "new_object h = \<lparr>username = Null, password = Null, outputPath = PWD h, collectionPath = Null,
     WACZPath = Null, collectionTitle = Null, collectionDescription = Null,
     collectionId = NaN, concurrency = Fin 50, signingUrl = Null, signingToken = Null,
     WARCs = [], pages = [], folder = [], logged = []\<rparr>"

text \<open>
  \<^verbatim>\<open>x.trim()\<close> followed by \<^verbatim>\<open>notEqual(x.length, 0)\<close>: anything but a string with a
  character other than white space fails.
\<close>

definition trimmed :: "jsval \<Rightarrow> error + string" where
  "trimmed v =
     (case v of
        JString s \<Rightarrow> if trim s = [] then Inl AssertionError else Inr (trim s)
      | _ \<Rightarrow> Inl TypeError)"

text \<open>
  \<^verbatim>\<open>filterBlockingOptions\<close>: each failure is traced and rethrown as an \<^verbatim>\<open>Error\<close>.
\<close>

definition filterBlockingOptions :: "host \<Rightarrow> PreparatorOptions option \<Rightarrow> Preparator \<Rightarrow> error + Preparator" where
  "filterBlockingOptions h options st =
     (case options of
        None \<Rightarrow> Inl (Error [Lit ''\"username\" must be provided.''])
      | Some opts \<Rightarrow>
          (case trimmed (opt_username opts) of
             Inl _ \<Rightarrow> Inl (Error [Lit ''\"username\" must be provided.''])
           | Inr u \<Rightarrow>
               (case trimmed (opt_password opts) of
                  Inl _ \<Rightarrow> Inl (Error [Lit ''\"password\" must be provided.''])
                | Inr pw \<Rightarrow>
                    let cid = Number h (opt_collectionId opts) in
                    if cid = NaN \<or> \<not> js_less (Fin 0) cid
                    then Inl (Error [Lit ''\"collectionId\" must be provided.''])
                    else Inr (st\<lparr>username := Str u, password := Str pw, collectionId := cid\<rparr>))))"

text \<open>
  \<^verbatim>\<open>filterNonBlockingOptions\<close>, one option after the other. Each block is entered only
  when the option is truthy, and what fails inside it is traced and turned into a warning.
\<close>

definition filter_outputPath :: "host \<Rightarrow> jsval \<Rightarrow> Preparator \<Rightarrow> Preparator" where
  "filter_outputPath h v st =
     (if truthy_val v then
        (case v of
           JString path \<Rightarrow>
             (case directory_error h path of
                None \<Rightarrow> st\<lparr>outputPath := Str path\<rparr>
              | Some err \<Rightarrow>
                  log_to Warn [Lit ''Provided \"outputPath\" is not a directory or cannot be accessed. Using '',
                    Val (outputPath st), Lit '' instead.'']
                    (log_to Trace [Thrown err] st))
         | _ \<Rightarrow>
             log_to Warn [Lit ''Provided \"outputPath\" is not a directory or cannot be accessed. Using '',
               Val (outputPath st), Lit '' instead.'']
               (log_to Trace [Thrown TypeError] st))
      else st)"

definition filter_concurrency :: "host \<Rightarrow> jsval \<Rightarrow> Preparator \<Rightarrow> Preparator" where
  "filter_concurrency h v st =
     (if truthy_val v then
        let c = Number h v in
        if c \<noteq> NaN \<and> js_less (Fin 0) c then st\<lparr>concurrency := c\<rparr>
        else log_to Warn [Lit ''\"concurrency\" was not provided or is not a directory. Using '',
               Num (concurrency st), Lit '' instead.'']
               (log_to Trace [Thrown AssertionError] st)
      else st)"

definition filter_signingUrl :: "host \<Rightarrow> jsval \<Rightarrow> Preparator \<Rightarrow> Preparator" where
  "filter_signingUrl h v st =
     (if truthy_val v then
        (case URL_href h v of
           Some href \<Rightarrow> st\<lparr>signingUrl := Str href\<rparr>
         | None \<Rightarrow>
             log_to Warn [Lit ''Provided \"signingUrl\" is invalid. Skipping.'']
               (log_to Trace [Thrown TypeError] st))
      else st)"

definition filter_signingToken :: "host \<Rightarrow> jsval \<Rightarrow> Preparator \<Rightarrow> Preparator" where
  "filter_signingToken h v st =
     (if truthy (signingUrl st) \<and> truthy_val v then st\<lparr>signingToken := Str (ToString h v)\<rparr>
      else st)"

definition filterNonBlockingOptions :: "host \<Rightarrow> PreparatorOptions option \<Rightarrow> Preparator \<Rightarrow> Preparator" where
  "filterNonBlockingOptions h options st =
     (case options of
        None \<Rightarrow> st
      | Some opts \<Rightarrow>
          filter_signingToken h (opt_signingToken opts)
            (filter_signingUrl h (opt_signingUrl opts)
              (filter_concurrency h (opt_concurrency opts)
                (filter_outputPath h (opt_outputPath opts) st))))"

text \<open>
  The constructor: the logger is checked first, then the blocking options, then the
  others. \<open>Inl\<close> is the error it throws.
\<close>

definition compatible :: "logger \<Rightarrow> bool" where
  "compatible l = (has_trace l \<and> has_info l \<and> has_warn l \<and> has_error l)"

definition constructor :: "host \<Rightarrow> PreparatorOptions option \<Rightarrow> error + Preparator" where
  "constructor h options =
     (if (case options of None \<Rightarrow> False
          | Some opts \<Rightarrow> (case opt_log opts of None \<Rightarrow> False | Some l \<Rightarrow> \<not> compatible l))
      then Inl (Error [Lit ''\"log\" must be compatible with the Console API.''])
      else
        (case filterBlockingOptions h options (new_object h) of
           Inl e \<Rightarrow> Inl e
         | Inr st \<Rightarrow> Inr (filterNonBlockingOptions h options st)))"

section \<open>printReport (index.js, 791-810)\<close>

text \<open>
  \<^verbatim>\<open>this.notDownloaded\<close> is not a field of the class: the warning interpolates
  \<^verbatim>\<open>undefined\<close>. The first message starts with the four bytes of an emoji.
\<close>

definition printReport :: "Preparator \<Rightarrow> Preparator" where
  "printReport st =
     (let st1 = log_to Info [Lit ([CHR 0xF0, CHR 0x9F, CHR 0x93, CHR 0x9A] @ '' Collection is ready.'')] st;
          notDownloaded = length (filter (\<lambda>entry. downloaded entry = False) (WARCs st1));
          st2 = (if notDownloaded \<noteq> 0
                 then log_to Warn [Val Undefined, Lit '' of '', Count (length (WARCs st1)),
                        Lit '' WARC files have not been downloaded.''] st1
                 else st1)
      in log_to Info [Lit ''WACZ file can be found here: '', Val (WACZPath st2)] st2)"

section \<open>process (index.js, 112-234)\<close>

text \<open>
  \<^verbatim>\<open>process\<close> calls the stages as methods of the object. Here they are the fields of a
  record, so that \<^verbatim>\<open>process\<close> is modelled for every behaviour of a stage: a call returns
  the object as the stage left it and, when the stage threw, the error.
\<close>

record methods =
  this_checkCredentials :: stage
  this_createCollectionFolder :: stage
  this_fetchCollectionInfo :: stage
  this_fetchWARCsList :: stage
  this_fetchWARCsCrawlInfo :: stage
  this_fetchCrawledUrlsTitle :: stage
  this_deleteLooseWARCs :: stage
  this_checkWARCsHashes :: stage
  this_fetchWARCs :: stage
  this_generatePagesList :: stage
  this_generateWACZ :: stage

text \<open>
  A \<^verbatim>\<open>try\<close> block whose \<^verbatim>\<open>catch\<close> ends with \<^verbatim>\<open>return false\<close>: the message logged
  before the call, the stage, what the \<^verbatim>\<open>catch\<close> logs, and the rest of \<^verbatim>\<open>process\<close>.
\<close>

definition blocking ::
  "(Preparator \<Rightarrow> piece list) \<Rightarrow> stage \<Rightarrow> (error \<Rightarrow> log_entry list)
     \<Rightarrow> (Preparator \<Rightarrow> Preparator \<times> jsval) \<Rightarrow> Preparator \<Rightarrow> Preparator \<times> jsval" where
  "blocking msg f caught rest st =
     (case f (log_to Info (msg st) st) of
        (st', Some err) \<Rightarrow> (st'\<lparr>logged := logged st' @ caught err\<rparr>, JBool False)
      | (st', None) \<Rightarrow> rest st')"

text \<open>A \<^verbatim>\<open>try\<close> block whose \<^verbatim>\<open>catch\<close> only logs: \<^verbatim>\<open>process\<close> goes on.\<close>

definition non_blocking ::
  "(Preparator \<Rightarrow> piece list) \<Rightarrow> stage \<Rightarrow> (error \<Rightarrow> log_entry list)
     \<Rightarrow> (Preparator \<Rightarrow> Preparator \<times> jsval) \<Rightarrow> Preparator \<Rightarrow> Preparator \<times> jsval" where
  "non_blocking msg f caught rest st =
     (case f (log_to Info (msg st) st) of
        (st', Some err) \<Rightarrow> rest (st'\<lparr>logged := logged st' @ caught err\<rparr>)
      | (st', None) \<Rightarrow> rest st')"

text \<open>
  The blocks from \<^verbatim>\<open>deleteLooseWARCs\<close> to the report (lines 175-234). After the last
  block \<^verbatim>\<open>printReport\<close> is called and the function ends without a \<^verbatim>\<open>return\<close>: the
  promise resolves to \<^verbatim>\<open>undefined\<close>.
\<close>

definition after_titles :: "methods \<Rightarrow> Preparator \<Rightarrow> Preparator \<times> jsval" where
  "after_titles m =
     blocking (\<lambda>st. [Lit ''Deleting \"loose\" .warc.gz files (present in folder, but not referenced in collection)''])
       (this_deleteLooseWARCs m)
       (\<lambda>err. [(Err, [Lit ''An error occurred while deleting loose WARC files.'']), (Trace, [Thrown err])])
    (blocking (\<lambda>st. [Lit ''Checking hashes of WARCs that may already be present in collection folder''])
       (this_checkWARCsHashes m)
       (\<lambda>err. [(Err, [Thrown err])])
    (blocking (\<lambda>st. [Lit ''Downloading WARCs''])
       (this_fetchWARCs m)
       (\<lambda>err. [(Err, [Thrown err])])
    (blocking (\<lambda>st. [Lit ''Checking hashes on downloaded WARC collection''])
       (this_checkWARCsHashes m)
       (\<lambda>err. [(Err, [Thrown err])])
    (blocking (\<lambda>st. [Lit ''Building pages list''])
       (this_generatePagesList m)
       (\<lambda>err. [(Err, [Thrown err])])
    (blocking (\<lambda>st. [Lit ''Preparing WACZ file''])
       (this_generateWACZ m)
       (\<lambda>err. [(Err, [Lit ''An error occurred while preparing WACZ file.'']), (Trace, [Thrown err])])
    (\<lambda>st. (printReport st, JUndefined)))))))"

text \<open>
  The two blocks before (lines 156-173): crawl and seed information, whose \<^verbatim>\<open>catch\<close>
  returns false, and page titles, whose \<^verbatim>\<open>catch\<close> is marked \<^verbatim>\<open>// Non-blocking\<close>.
\<close>

definition from_crawlInfo :: "methods \<Rightarrow> Preparator \<Rightarrow> Preparator \<times> jsval" where
  "from_crawlInfo m =
     blocking (\<lambda>st. [Lit ''Pulling crawl and seed information for each entry''])
       (this_fetchWARCsCrawlInfo m)
       (\<lambda>err. [(Err, [Lit ''An error occurred while listing WARC files from collection.'']),
               (Trace, [Thrown err])])
    (non_blocking (\<lambda>st. [Lit ''Pulling page titles for each entry''])
       (this_fetchCrawledUrlsTitle m)
       (\<lambda>err. [(Trace, [Thrown err]),
               (Err, [Lit ''An error occurred while pulling page titles from the Wayback Machine.''])])
    (after_titles m))"

text \<open>
  The whole function. In the fourth block the number of entries is logged inside the
  \<^verbatim>\<open>try\<close>, after the call.
\<close>

definition process :: "methods \<Rightarrow> Preparator \<Rightarrow> Preparator \<times> jsval" where
  "process m =
     blocking (\<lambda>st. [Lit ''Checking credentials combination''])
       (this_checkCredentials m)
       (\<lambda>err. [(Trace, [Thrown err]),
               (Err, [Lit ''Invalid credentials combination, or the Archive It API could not be reached.''])])
    (blocking (\<lambda>st. [Lit ''Creating collections folder (if not already present)''])
       (this_createCollectionFolder m)
       (\<lambda>err. [(Trace, [Thrown err]),
               (Err, [Lit ''Collections folder could not be accessed or created.''])])
    (blocking (\<lambda>st. [Lit ''Pulling collection information for '', Num (collectionId st)])
       (this_fetchCollectionInfo m)
       (\<lambda>err. [(Trace, [Thrown err]),
               (Err, [Lit ''An error occurred while pulling collection information.''])])
    (blocking (\<lambda>st. [Lit ''Listing WARC files from collection '', Num (collectionId st)])
       (\<lambda>st. case this_fetchWARCsList m st of
               (st', None) \<Rightarrow>
                 (log_to Info [Count (length (WARCs st')), Lit '' entries found in total.''] st', None)
             | (st', Some err) \<Rightarrow> (st', Some err))
       (\<lambda>err. [(Trace, [Thrown err]),
               (Err, [Lit ''An error occurred while listing WARC files from collection.''])])
    (from_crawlInfo m))))"

section \<open>The batched stages\<close>

subsection \<open>The remote services\<close>

text \<open>
  What the network answers to each request of a run. A seed report is the parsed body of
  \<^verbatim>\<open>/api/reports/seed/${crawlId}\<close>, or what \<^verbatim>\<open>response.json()\<close> or the iteration over it
  throws. Of the metadata of a seed only \<^verbatim>\<open>parsed.metadata.Title\<close> is kept: \<open>None\<close> when
  \<^verbatim>\<open>metadata\<close> or \<^verbatim>\<open>Title\<close> is missing, else the \<^verbatim>\<open>value\<close> of each item. Of a replayed
  page: the status, the \<^verbatim>\<open>content-type\<close> header and the text of the \<^verbatim>\<open>title\<close> element
  (\<open>None\<close> when \<^verbatim>\<open>querySelector\<close> finds none). Of a download: the status, the chunks of
  the body and the error that ends the stream, if any.
\<close>

record seed_record =
  seed_id :: "int option"
  seed :: jstr
  seed_timestamp :: jstr

datatype report_reply = ReportFails error | Report nat "error + seed_record list"

datatype seed_reply = SeedFails error | SeedJSON "jstr list option"

datatype wayback_reply = WaybackFails error | Wayback nat "string option" "string option"

datatype download_reply = DownloadFails error | Download nat "string list" "error option"

record network =
  seed_report :: "int option \<Rightarrow> report_reply"
  seed_metadata :: "int \<Rightarrow> seed_reply"
  wayback :: "piece list \<Rightarrow> wayback_reply"
  download :: "jstr \<Rightarrow> download_reply"

subsection \<open>Promise.allSettled\<close>

text \<open>
  \<^verbatim>\<open>await Promise.allSettled(group.map(x => fetchOne(x)))\<close>: every operation of the group
  is started and awaited, and each gives its own outcome, fulfilled or rejected with
  what it threw. The operations of a group work on different objects; here they run one
  after the other, in the order of the group.
\<close>

datatype settled = Fulfilled | Rejected error

fun allSettled ::
  "('a \<Rightarrow> Preparator \<Rightarrow> Preparator \<times> settled) \<Rightarrow> 'a list \<Rightarrow> Preparator
     \<Rightarrow> Preparator \<times> ('a \<times> settled) list" where
  "allSettled fetchOne [] st = (st, [])"
| "allSettled fetchOne (x # xs) st =
     (case fetchOne x st of
        (st1, r) \<Rightarrow>
          (case allSettled fetchOne xs st1 of (st2, rs) \<Rightarrow> (st2, (x, r) # rs)))"

text \<open>The loop over the results: what is logged for each rejected one.\<close>

definition log_rejections ::
  "(error \<Rightarrow> log_entry list) \<Rightarrow> ('a \<times> settled) list \<Rightarrow> Preparator \<Rightarrow> Preparator" where
  "log_rejections entries results st =
     st\<lparr>logged := logged st
        @ concat (map (\<lambda>result. case snd result of Rejected reason \<Rightarrow> entries reason
                                 | Fulfilled \<Rightarrow> []) results)\<rparr>"





text \<open>\<^verbatim>\<open>${ref.crawlId}\<close> and \<^verbatim>\<open>${crawl.seedId}\<close>: a number or null.\<close>

definition id_piece :: "int option \<Rightarrow> piece" where
  "id_piece n = (case n of None \<Rightarrow> Val Null | Some k \<Rightarrow> Num (Fin (of_int k)))"

subsection \<open>fetchWARCsCrawlInfo (index.js, 433-485)\<close>

definition crawledUrl_of_seed :: "seed_record \<Rightarrow> ArchiveItCrawledUrl" where
  "crawledUrl_of_seed sd = \<lparr>seedId = seed_id sd, url = seed sd, timestamp = seed_timestamp sd,
     title = Null\<rparr>"

text \<open>\<^verbatim>\<open>fetchOne(ref)\<close>, for the reference at index \<open>i\<close> of \<^verbatim>\<open>this.WARCs\<close>.\<close>

definition crawlInfo_fetchOne :: "network \<Rightarrow> nat \<Rightarrow> Preparator \<Rightarrow> Preparator \<times> settled" where
  "crawlInfo_fetchOne net i st =
     (let ref = WARCs st ! i;
          st1 = log_to Info [Val (filename ref), Lit '': pulling crawl info.''] st
      in case seed_report net (crawlId ref) of
           ReportFails err \<Rightarrow> (st1, Rejected err)
         | Report status body \<Rightarrow>
             if status \<noteq> 200 then
               (st1, Rejected (Error [Lit ''Archive-It API responded with '', Count status,
                                      Lit '' for crawl ID '', id_piece (crawlId ref), Lit ''.'']))
             else
               (case body of
                  Inl err \<Rightarrow> (st1, Rejected err)
                | Inr parsed \<Rightarrow>
                    (st1\<lparr>WARCs := (WARCs st1)[i := ref\<lparr>crawledUrls :=
                        crawledUrls ref @ map crawledUrl_of_seed parsed\<rparr>]\<rparr>, Fulfilled)))"

text \<open>
  The loop over the indices of \<^verbatim>\<open>this.WARCs\<close>, with the current group and the outcomes of
  the groups settled so far. \<open>c\<close> is \<^verbatim>\<open>concurrency\<close>, read once before the loop.
\<close>

fun crawlInfo_loop ::
  "network \<Rightarrow> jsnum \<Rightarrow> nat list \<Rightarrow> nat list \<Rightarrow> Preparator \<Rightarrow> (nat \<times> settled) list list
     \<Rightarrow> Preparator \<times> (nat \<times> settled) list list" where
  "crawlInfo_loop net c [] grp st outcomes = (st, outcomes)"
| "crawlInfo_loop net c (i # is) grp st outcomes =
     (if \<not> i < length (WARCs st) then (st, outcomes)
      else
        let group1 = (if js_less (len grp) c then grp @ [i] else grp) in
        if js_ge (len group1) c \<or> Suc i = length (WARCs st) then
          (case allSettled (crawlInfo_fetchOne net) group1 st of
             (st1, results) \<Rightarrow>
               crawlInfo_loop net c is []
                 (log_rejections
                    (\<lambda>reason. [(Trace, [Thrown reason]),
                                (Warn, [Lit ''A request to pull crawl info failed. Skipping.''])])
                    results st1)
                 (outcomes @ [results]))
        else crawlInfo_loop net c is group1 st outcomes)"

text \<open>The stage: the object after it and the outcomes of its groups, in order.\<close>

definition fetchWARCsCrawlInfo ::
  "network \<Rightarrow> Preparator \<Rightarrow> Preparator \<times> (nat \<times> settled) list list" where
  "fetchWARCsCrawlInfo net st =
     crawlInfo_loop net (concurrency st) [0..<length (WARCs st)] [] st []"



subsection \<open>fetchCrawledUrlsTitle (index.js, 498-585)\<close>

text \<open>
  \<^verbatim>\<open>crawl.timestamp.substring(0, 19).replaceAll(/[ \-:]/g, '')\<close> and
  \<^verbatim>\<open>encodeURIComponent\<close>, on the bytes of the string.
\<close>

definition wayback_timestamp :: "string \<Rightarrow> string" where
  "wayback_timestamp t = filter (\<lambda>ch. ch \<notin> set '' -:'') (take 19 t)"

definition unreserved :: "char \<Rightarrow> bool" where
  "unreserved ch =
     (let n = (of_char ch :: nat)
      in (48 \<le> n \<and> n \<le> 57) \<or> (65 \<le> n \<and> n \<le> 90) \<or> (97 \<le> n \<and> n \<le> 122)
         \<or> ch \<in> set ''-_.!~*()'' \<or> n = 39)"

definition hex_digit :: "nat \<Rightarrow> char" where
  "hex_digit n = ''0123456789ABCDEF'' ! (n mod 16)"

definition encodeURIComponent :: "string \<Rightarrow> string" where
  "encodeURIComponent u =
     concat (map (\<lambda>ch. if unreserved ch then [ch]
                        else [CHR ''%'', hex_digit (of_char ch div 16), hex_digit (of_char ch)]) u)"

definition waybackUrl :: "jsnum \<Rightarrow> string \<Rightarrow> jstr \<Rightarrow> piece list" where
  "waybackUrl cid t u =
     [Lit ''https://wayback.archive-it.org'', Lit ''/'', Num cid, Lit ''/'', Lit (wayback_timestamp t),
      Lit ''/'', Lit (encodeURIComponent (key_of u))]"

text \<open>
  First attempt of \<^verbatim>\<open>fetchOne(crawl)\<close>: the title from the metadata of the seed, when
  \<^verbatim>\<open>crawl.seedId\<close> is truthy. What the attempt throws is caught and logged.
\<close>

definition metadata_title :: "network \<Rightarrow> ArchiveItCrawledUrl \<Rightarrow> Preparator \<Rightarrow> jstr \<times> Preparator" where
  "metadata_title net crawl st =
     (case seedId crawl of
        None \<Rightarrow> (Null, st)
      | Some n \<Rightarrow>
          if n = 0 then (Null, st)
          else
            (case seed_metadata net n of
               SeedFails err \<Rightarrow>
                 (Null, log_to Trace [Thrown err]
                          (log_to Info [Lit ''An error occurred while trying to pull seed information for '',
                             id_piece (seedId crawl), Lit ''.''] st))
             | SeedJSON None \<Rightarrow> (Null, st)
             | SeedJSON (Some []) \<Rightarrow> (Null, st)
             | SeedJSON (Some (v # vs)) \<Rightarrow> (v, st)))"

text \<open>
  Second attempt, entered when the title is still falsy. The URL is built before the
  \<^verbatim>\<open>try\<close>: \<^verbatim>\<open>substring\<close> on a timestamp that is no string throws out of \<^verbatim>\<open>fetchOne\<close>
  (\<open>Inl\<close>). Inside the \<^verbatim>\<open>try\<close>, a missing \<^verbatim>\<open>content-type\<close> header and a missing
  \<^verbatim>\<open>title\<close> element throw a TypeError, which is caught and logged like a failed request.
  The new title is \<^verbatim>\<open>title === 'Archive-it Wayback' ? null : ...textContent\<close>, where
  \<^verbatim>\<open>title\<close> is the title so far.
\<close>

definition wayback_caught :: "piece list \<Rightarrow> error \<Rightarrow> Preparator \<Rightarrow> Preparator" where
  "wayback_caught u err st =
     log_to Trace [Thrown err]
       (log_to Info ([Lit ''An error occurred while trying to retrieve the archived page title from '']
                     @ u @ [Lit ''.'']) st)"

definition wayback_title ::
  "network \<Rightarrow> ArchiveItCrawledUrl \<Rightarrow> jstr \<Rightarrow> Preparator \<Rightarrow> error + jstr \<times> Preparator" where
  "wayback_title net crawl title0 st =
     (case timestamp crawl of
        Str t \<Rightarrow>
          let u = waybackUrl (collectionId st) t (url crawl) in
          (case wayback net u of
             WaybackFails err \<Rightarrow> Inr (title0, wayback_caught u err st)
           | Wayback status content_type text \<Rightarrow>
               if status = 200 then
                 (case content_type of
                    None \<Rightarrow> Inr (title0, wayback_caught u TypeError st)
                  | Some ct \<Rightarrow>
                      if prefix ''text/html'' ct then
                        (if title0 = Str ''Archive-it Wayback'' then Inr (Null, st)
                         else
                           (case text of
                              None \<Rightarrow> Inr (title0, wayback_caught u TypeError st)
                            | Some textContent \<Rightarrow> Inr (Str textContent, st)))
                      else Inr (title0, st))
               else Inr (title0, st))
      | _ \<Rightarrow> Inl TypeError)"

text \<open>\<^verbatim>\<open>crawl.title = title\<close>, on the object at \<^verbatim>\<open>this.WARCs[i].crawledUrls[ii]\<close>.\<close>

definition set_title :: "nat \<Rightarrow> nat \<Rightarrow> jstr \<Rightarrow> Preparator \<Rightarrow> Preparator" where
  "set_title i ii t st =
     (let ref = WARCs st ! i
      in st\<lparr>WARCs := (WARCs st)[i := ref\<lparr>crawledUrls :=
              (crawledUrls ref)[ii := (crawledUrls ref ! ii)\<lparr>title := t\<rparr>]\<rparr>]\<rparr>)"

definition title_fetchOne :: "network \<Rightarrow> nat \<times> nat \<Rightarrow> Preparator \<Rightarrow> Preparator \<times> settled" where
  "title_fetchOne net item st =
     (let crawl = crawledUrls (WARCs st ! fst item) ! snd item;
          (title1, st1) = metadata_title net crawl st
      in case (if \<not> truthy title1 then wayback_title net crawl title1 st1 else Inr (title1, st1)) of
           Inl err \<Rightarrow> (st1, Rejected err)
         | Inr (title2, st2) \<Rightarrow>
             if truthy title2 then
               (set_title (fst item) (snd item) title2
                  (log_to Info [Lit ''Title found for '', Val (url crawl), Lit '': '', Val title2] st2),
                Fulfilled)
             else (log_to Warn [Lit ''No title found for '', Val (url crawl), Lit ''.''] st2, Fulfilled))"

text \<open>
  The inner loop over the crawled URLs of the reference at index \<open>i\<close>: an item is pushed
  while the group is not full, and the loop is left as soon as the group is full.
\<close>

fun fill_group :: "jsnum \<Rightarrow> nat \<Rightarrow> nat list \<Rightarrow> (nat \<times> nat) list \<Rightarrow> (nat \<times> nat) list" where
  "fill_group c i [] grp = grp"
| "fill_group c i (ii # iis) grp =
     (let group1 = (if js_less (len grp) c then grp @ [(i, ii)] else grp)
      in if js_ge (len group1) c then group1 else fill_group c i iis group1)"

text \<open>
  The outer loop. A filename that is no string makes \<^verbatim>\<open>includes\<close> throw out of the
  stage. A \<^verbatim>\<open>MISSING_URLS_PATCH\<close> reference is skipped by \<^verbatim>\<open>continue\<close>. The group is
  settled when it is full or when \<^verbatim>\<open>i >= this.WARCs.length\<close>.
\<close>

fun titles_loop ::
  "network \<Rightarrow> jsnum \<Rightarrow> nat list \<Rightarrow> (nat \<times> nat) list \<Rightarrow> Preparator
     \<Rightarrow> ((nat \<times> nat) \<times> settled) list list
     \<Rightarrow> Preparator \<times> ((nat \<times> nat) \<times> settled) list list \<times> error option" where
  "titles_loop net c [] grp st outcomes = (st, outcomes, None)"
| "titles_loop net c (i # is) grp st outcomes =
     (if \<not> i < length (WARCs st) then (st, outcomes, None)
      else
        (case filename (WARCs st ! i) of
           Str f \<Rightarrow>
             if str_includes f MISSING_URLS_PATCH then titles_loop net c is grp st outcomes
             else
               let group1 = fill_group c i [0..<length (crawledUrls (WARCs st ! i))] grp in
               if js_ge (len group1) c \<or> length (WARCs st) \<le> i then
                 (case allSettled (title_fetchOne net) group1 st of
                    (st1, results) \<Rightarrow>
                      titles_loop net c is []
                        (log_rejections (\<lambda>reason. [(Trace, [Thrown reason])]) results st1)
                        (outcomes @ [results]))
               else titles_loop net c is group1 st outcomes
         | _ \<Rightarrow> (st, outcomes, Some TypeError)))"

text \<open>
  The stage: the object after it, the outcomes of the groups it settled, and what it threw.
\<close>

definition fetchCrawledUrlsTitle ::
  "network \<Rightarrow> Preparator \<Rightarrow> Preparator \<times> ((nat \<times> nat) \<times> settled) list list \<times> error option" where
  "fetchCrawledUrlsTitle net st =
     titles_loop net (concurrency st) [0..<length (WARCs st)] [] st []"




subsection \<open>fetchWARCs (index.js, 652-705)\<close>

text \<open>
  The body is piped chunk by chunk into \<^verbatim>\<open>appendFile\<close>; what was written before a failure
  stays on disk.
\<close>

fun write_chunks :: "string \<Rightarrow> string list \<Rightarrow> folder \<Rightarrow> folder \<times> error option" where
  "write_chunks name [] d = (d, None)"
| "write_chunks name (chunk # chunks) d =
     (case appendFile d name chunk of
        Inl err \<Rightarrow> (d, Some err)
      | Inr d' \<Rightarrow> write_chunks name chunks d')"

definition download_fetchOne :: "network \<Rightarrow> nat \<Rightarrow> Preparator \<Rightarrow> Preparator \<times> settled" where
  "download_fetchOne net i st =
     (let ref = WARCs st ! i;
          st1 = log_to Info [Val (filename ref), Lit '': downloading ...''] st
      in case download net (downloadUrl ref) of
           DownloadFails err \<Rightarrow> (st1, Rejected err)
         | Download status chunks stream_error \<Rightarrow>
             if status \<noteq> 200 then
               (st1, Rejected (Error [Lit ''Archive-It API responded with '', Count status,
                                      Lit '' for '', Val (downloadUrl ref), Lit ''.'']))
             else
               (case write_chunks (key_of (filename ref)) chunks (folder st1) of
                  (d, Some err) \<Rightarrow>
                    (st1\<lparr>folder := d\<rparr>,
                     Rejected (Error [Lit ''Failed to write '', Val (filename ref),
                                      Lit ('' to disk.'' @ [CHR 0x0A]), Thrown err]))
                | (d, None) \<Rightarrow>
                    (case stream_error of
                       Some err \<Rightarrow>
                         (st1\<lparr>folder := d\<rparr>,
                          Rejected (Error [Lit ''Failed to write '', Val (filename ref),
                                           Lit ('' to disk.'' @ [CHR 0x0A]), Thrown err]))
                     | None \<Rightarrow> (st1\<lparr>folder := d\<rparr>, Fulfilled))))"

fun fetchWARCs_loop ::
  "network \<Rightarrow> jsnum \<Rightarrow> nat list \<Rightarrow> nat list \<Rightarrow> Preparator \<Rightarrow> (nat \<times> settled) list list
     \<Rightarrow> Preparator \<times> (nat \<times> settled) list list" where
  "fetchWARCs_loop net c [] grp st outcomes = (st, outcomes)"
| "fetchWARCs_loop net c (i # is) grp st outcomes =
     (if \<not> i < length (WARCs st) then (st, outcomes)
      else
        let group1 = (if js_less (len grp) c \<and> downloaded (WARCs st ! i) = False
                      then grp @ [i] else grp) in
        if js_ge (len group1) c \<or> Suc i = length (WARCs st) then
          (case allSettled (download_fetchOne net) group1 st of
             (st1, results) \<Rightarrow>
               fetchWARCs_loop net c is []
                 (log_rejections (\<lambda>reason. [(Trace, [Thrown reason])]) results st1)
                 (outcomes @ [results]))
        else fetchWARCs_loop net c is group1 st outcomes)"

definition fetchWARCs ::
  "network \<Rightarrow> Preparator \<Rightarrow> Preparator \<times> (nat \<times> settled) list list" where
  "fetchWARCs net st =
     fetchWARCs_loop net (concurrency st) [0..<length (WARCs st)] [] st []"


text \<open>
  The methods of the class as modelled above, for a network, a Date object and a digest;
  the stages that are not modelled (credentials, folder creation, collection information,
  WARC listing, WACZ generation) are taken from \<open>other\<close>.
\<close>

definition Preparator_methods ::
  "methods \<Rightarrow> network \<Rightarrow> js_date \<Rightarrow> (string \<Rightarrow> string) \<Rightarrow> methods" where
  "Preparator_methods other net rt sha1 = other\<lparr>
     this_fetchWARCsCrawlInfo := (\<lambda>st. (fst (fetchWARCsCrawlInfo net st), None)),
     this_fetchCrawledUrlsTitle :=
       (\<lambda>st. (fst (fetchCrawledUrlsTitle net st), snd (snd (fetchCrawledUrlsTitle net st)))),
     this_deleteLooseWARCs := deleteLooseWARCs,
     this_checkWARCsHashes := checkWARCsHashes sha1,
     this_fetchWARCs := (\<lambda>st. (fst (fetchWARCs net st), None)),
     this_generatePagesList :=
       (\<lambda>st. (st\<lparr>pages := fst (generatePagesList rt (WARCs st))\<rparr>,
              snd (generatePagesList rt (WARCs st))))\<rparr>"

section \<open>A Date instance for evaluating examples\<close>

text \<open>
  The ECMAScript date-time string format with the UTC designator,
  \<^verbatim>\<open>YYYY-MM-DDTHH:mm:ss[.fff...]Z\<close>, read as milliseconds since the epoch; every other
  string is an Invalid Date. The properties below hold for every \<open>js_date\<close>; this
  instance only serves to run the functions on concrete inputs.
\<close>

definition digit_val :: "char \<Rightarrow> int option" where
  "digit_val c = (let n = (of_char c :: int) in if 48 \<le> n \<and> n \<le> 57 then Some (n - 48) else None)"

fun digits_val :: "string \<Rightarrow> int \<Rightarrow> int option" where
  "digits_val [] acc = Some acc"
| "digits_val (c # cs) acc =
     (case digit_val c of None \<Rightarrow> None | Some d \<Rightarrow> digits_val cs (10 * acc + d))"

definition number_of :: "string \<Rightarrow> int option" where
  "number_of s = (if s = [] then None else digits_val s 0)"

definition days_from_civil :: "int \<Rightarrow> int \<Rightarrow> int \<Rightarrow> int" where
  "days_from_civil y m d =
     (let y' = (if m \<le> 2 then y - 1 else y);
          era = y' div 400;
          yoe = y' - era * 400;
          doy = (153 * (m + (if m > 2 then - 3 else 9)) + 2) div 5 + d - 1;
          doe = yoe * 365 + yoe div 4 - yoe div 100 + doy
      in era * 146097 + doe - 719468)"

definition civil_from_days :: "int \<Rightarrow> int \<times> int \<times> int" where
  "civil_from_days z =
     (let z' = z + 719468;
          era = z' div 146097;
          doe = z' - era * 146097;
          yoe = (doe - doe div 1460 + doe div 36524 - doe div 146096) div 365;
          doy = doe - (365 * yoe + yoe div 4 - yoe div 100);
          mp = (5 * doy + 2) div 153;
          d = doy - (153 * mp + 2) div 5 + 1;
          m = (if mp < 10 then mp + 3 else mp - 9)
      in (yoe + era * 400 + (if m \<le> 2 then 1 else 0), m, d))"

text \<open>The fraction of a second: its first three digits, as milliseconds.\<close>

definition fraction_ms :: "string \<Rightarrow> int option" where
  "fraction_ms r =
     (case r of
        [] \<Rightarrow> Some 0
      | c # fdigits \<Rightarrow>
          if c = CHR ''.'' \<and> fdigits \<noteq> [] \<and> digits_val fdigits 0 \<noteq> None
          then digits_val (take 3 (fdigits @ ''00'')) 0 else None)"

definition iso_parse :: "string \<Rightarrow> int option" where
  "iso_parse s =
     (if length s < 20 \<or> last s \<noteq> CHR ''Z'' \<or> s ! 4 \<noteq> CHR ''-'' \<or> s ! 7 \<noteq> CHR ''-''
         \<or> s ! 10 \<noteq> CHR ''T'' \<or> s ! 13 \<noteq> CHR '':'' \<or> s ! 16 \<noteq> CHR '':'' then None
      else
        case (number_of (take 4 s), number_of (take 2 (drop 5 s)), number_of (take 2 (drop 8 s)),
              number_of (take 2 (drop 11 s)), number_of (take 2 (drop 14 s)),
              number_of (take 2 (drop 17 s)), fraction_ms (butlast (drop 19 s))) of
          (Some y, Some mo, Some d, Some h, Some mi, Some se, Some ms) \<Rightarrow>
            if 1 \<le> mo \<and> mo \<le> 12 \<and> 1 \<le> d \<and> d \<le> 31 \<and> h \<le> 23 \<and> mi \<le> 59 \<and> se \<le> 59
            then Some (((days_from_civil y mo d * 24 + h) * 60 + mi) * 60000 + se * 1000 + ms)
            else None
        | _ \<Rightarrow> None)"

definition digit_char :: "int \<Rightarrow> char" where
  "digit_char d = ''0123456789'' ! nat (d mod 10)"

definition pad2 :: "int \<Rightarrow> string" where
  "pad2 n = [digit_char (n div 10), digit_char n]"

definition pad3 :: "int \<Rightarrow> string" where
  "pad3 n = digit_char (n div 100) # pad2 n"

definition pad4 :: "int \<Rightarrow> string" where
  "pad4 n = digit_char (n div 1000) # pad3 n"

definition pad6 :: "int \<Rightarrow> string" where
  "pad6 n = digit_char (n div 100000) # digit_char (n div 10000) # pad4 n"

definition iso_toISOString :: "int \<Rightarrow> string" where
  "iso_toISOString t =
     (let (y, m, d) = civil_from_days (t div 86400000);
          r = t mod 86400000;
          year = (if 0 \<le> y \<and> y \<le> 9999 then pad4 y
                  else (if y < 0 then ''-'' else ''+'') @ pad6 \<bar>y\<bar>)
      in year @ ''-'' @ pad2 m @ ''-'' @ pad2 d @ ''T''
         @ pad2 (r div 3600000) @ '':'' @ pad2 (r div 60000 mod 60) @ '':''
         @ pad2 (r div 1000 mod 60) @ ''.'' @ pad3 (r mod 1000) @ ''Z'')"

definition iso_date :: js_date where
  "iso_date = \<lparr>Date_parse = iso_parse, toISOString = iso_toISOString\<rparr>"

section \<open>Example data\<close>

text \<open>The seed record of the README's scenario, once with a title and once without.\<close>

definition titled_crawl :: ArchiveItCrawledUrl where
  "titled_crawl = \<lparr>seedId = Some 1, url = Str ''https://example.com'',
     timestamp = Str ''2021-04-30 20:04:57.635000'', title = Str ''Example''\<rparr>"

definition untitled_crawl :: ArchiveItCrawledUrl where
  "untitled_crawl = titled_crawl\<lparr>title := Null\<rparr>"

definition plain_warc :: ArchiveItWARCReference where
  "plain_warc = \<lparr>downloadUrl = Str ''https://warcs.archive-it.org/capture1.warc.gz'',
     downloaded = False, filename = Str ''capture1.warc.gz'', remoteSHA1Hash = Str ''abc123'',
     localSHA1Hash = Null, crawlId = Some 99, crawledUrls = [untitled_crawl, titled_crawl]\<rparr>"

definition patch_warc :: ArchiveItWARCReference where
  "patch_warc = plain_warc\<lparr>filename := Str ''ARCHIVEIT-1-MISSING_URLS_PATCH-2.warc.gz''\<rparr>"

text \<open>The same seed record with a timestamp that is not a date.\<close>

definition garbled_crawl :: ArchiveItCrawledUrl where
  "garbled_crawl = titled_crawl\<lparr>timestamp := Str ''garbage''\<rparr>"

definition garbled_warc :: ArchiveItWARCReference where
  "garbled_warc = plain_warc\<lparr>crawledUrls := [garbled_crawl]\<rparr>"

text \<open>A Preparator object for the README's collection, before any file is on disk.\<close>

definition example_object :: Preparator where
  "example_object = \<lparr>username = Str ''user'', password = Str ''secret'', outputPath = Str ''/data'',
     collectionPath = Str ''/data/12345/'', WACZPath = Null, collectionTitle = Null,
     collectionDescription = Null, collectionId = Fin 12345, concurrency = Fin 50,
     signingUrl = Null, signingToken = Null, WARCs = [plain_warc], pages = [], folder = [],
     logged = []\<rparr>"

text \<open>A collection folder holding the referenced capture file and a text file.\<close>

definition notes_object :: Preparator where
  "notes_object = example_object\<lparr>folder := [(''notes.txt'', File ''hello''),
     (''capture1.warc.gz'', File ''data'')]\<rparr>"

text \<open>
  Three references: one whose file is missing, one whose file has other content than the
  remote hash announces, one whose file matches. \<open>toy_digest\<close> stands in for SHA-1 on
  these two contents.
\<close>

definition toy_digest :: "string \<Rightarrow> string" where
  "toy_digest content = (if content = ''data'' then ''abc123'' else ''ffffff'')"

definition hashes_object :: Preparator where
  "hashes_object = example_object\<lparr>
     WARCs := [plain_warc\<lparr>filename := Str ''absent.warc.gz''\<rparr>,
               plain_warc\<lparr>filename := Str ''bad.warc.gz''\<rparr>, plain_warc],
     folder := [(''capture1.warc.gz'', File ''data''), (''bad.warc.gz'', File ''junk'')]\<rparr>"

text \<open>
  A host for the examples: one writable directory, every signing URL rejected, strings of
  decimal digits as numbers and every other string as \<^verbatim>\<open>NaN\<close>.
\<close>

definition example_host :: host where
  "example_host = \<lparr>PWD = Str ''/data'',
     directory_error = (\<lambda>path. if path = ''/data'' then None else Some ENOENT),
     URL_href = (\<lambda>v. None),
     StringToNumber = (\<lambda>s. case number_of s of None \<Rightarrow> NaN | Some n \<Rightarrow> Fin (of_int n)),
     ToString = (\<lambda>v. case v of JString s \<Rightarrow> s | _ \<Rightarrow> [])\<rparr>"

text \<open>The options of the README's scenario; no \<^verbatim>\<open>concurrency\<close> is given.\<close>

definition example_options :: PreparatorOptions where
  "example_options = \<lparr>opt_username = JString ''user'', opt_password = JString ''secret'',
     opt_collectionId = JNumber (Fin 12345), opt_outputPath = JUndefined,
     opt_concurrency = JUndefined, opt_signingUrl = JUndefined, opt_signingToken = JUndefined,
     opt_log = None\<rparr>"

text \<open>What the constructor makes of these options.\<close>

definition constructed_object :: Preparator where
  "constructed_object = (new_object example_host)\<lparr>username := Str ''user'',
     password := Str ''secret'', collectionId := Fin 12345\<rparr>"

text \<open>
  Stages for the examples: one that returns without touching the object, one that throws.
  In \<open>all_succeed\<close> every stage returns; in \<open>crawlInfo_throws\<close> and \<open>titles_throw\<close> one
  stage throws.
\<close>

definition returns :: stage where
  "returns st = (st, None)"

definition throws :: stage where
  "throws st = (st, Some (Error [Lit ''request failed'']))"

definition all_succeed :: methods where
  "all_succeed = \<lparr>this_checkCredentials = returns, this_createCollectionFolder = returns,
     this_fetchCollectionInfo = returns, this_fetchWARCsList = returns,
     this_fetchWARCsCrawlInfo = returns, this_fetchCrawledUrlsTitle = returns,
     this_deleteLooseWARCs = returns, this_checkWARCsHashes = returns, this_fetchWARCs = returns,
     this_generatePagesList = returns, this_generateWACZ = returns\<rparr>"

definition crawlInfo_throws :: methods where
  "crawlInfo_throws = all_succeed\<lparr>this_fetchWARCsCrawlInfo := throws\<rparr>"

definition titles_throw :: methods where
  "titles_throw = all_succeed\<lparr>this_fetchCrawledUrlsTitle := throws\<rparr>"

text \<open>
  The example object when \<^verbatim>\<open>process\<close>, run with such stages, has called the title stage.
\<close>

definition reached_titles :: Preparator where
  "reached_titles = example_object\<lparr>logged :=
     [(Info, [Lit ''Checking credentials combination'']),
      (Info, [Lit ''Creating collections folder (if not already present)'']),
      (Info, [Lit ''Pulling collection information for '', Num (Fin 12345)]),
      (Info, [Lit ''Listing WARC files from collection '', Num (Fin 12345)]),
      (Info, [Count 1, Lit '' entries found in total.'']),
      (Info, [Lit ''Pulling crawl and seed information for each entry'']),
      (Info, [Lit ''Pulling page titles for each entry''])]\<rparr>"

text \<open>
  A network whose replay service answers every request with the page that carries the
  placeholder title, and that knows no seed metadata.
\<close>

definition sentinel_net :: network where
  "sentinel_net = \<lparr>seed_report = (\<lambda>crawl. Report 200 (Inr [])),
     seed_metadata = (\<lambda>sd. SeedJSON None),
     wayback = (\<lambda>u. Wayback 200 (Some ''text/html; charset=utf-8'') (Some ''Archive-it Wayback'')),
     download = (\<lambda>u. DownloadFails (Error [Lit ''offline'']))\<rparr>"



section \<open>Properties\<close>

subsection \<open>The page list\<close>

lemma formatTimestamp_example:
  "formatTimestamp iso_date (Str ''2021-04-30 20:04:57.635000'') = Str ''2021-04-30T20:04:57Z''"
  by code_simp

lemma formatTimestamp_garbage: "formatTimestamp iso_date (Str ''garbage'') = Null"
  by code_simp

lemma pages_loop_acc:
  "pages_loop rt ws acc = (acc @ fst (pages_loop rt ws []), snd (pages_loop rt ws []))"
proof (induction ws arbitrary: acc)
  case Nil
  show ?case by simp
next
  case (Cons w ws)
  show ?case
  proof (cases "filename w")
    case (Str f)
    show ?thesis
    proof (cases "str_includes f MISSING_URLS_PATCH")
      case True
      with Str Cons.IH [of acc] show ?thesis by simp
    next
      case False
      with Str Cons.IH [of "acc @ pages_of_crawls rt (crawledUrls w)"]
        Cons.IH [of "pages_of_crawls rt (crawledUrls w)"]
      show ?thesis by simp
    qed
  qed simp_all
qed

lemma pages_of_crawls_truthy:
  "p \<in> set (pages_of_crawls rt cs) \<Longrightarrow> truthy (page_title p)"
  by (induction cs) (auto split: if_splits)

lemma pages_of_crawls_mem:
  "c \<in> set cs \<Longrightarrow> truthy (title c) \<Longrightarrow>
   \<lparr>page_url = url c, page_title = title c, ts = formatTimestamp rt (timestamp c)\<rparr>
     \<in> set (pages_of_crawls rt cs)"
  by (induction cs) auto

lemma pages_loop_truthy:
  "\<forall>p\<in>set acc. truthy (page_title p) \<Longrightarrow>
   \<forall>p\<in>set (fst (pages_loop rt ws acc)). truthy (page_title p)"
proof (induction ws arbitrary: acc)
  case Nil
  then show ?case by simp
next
  case (Cons w ws)
  show ?case
  proof (cases "filename w")
    case (Str f)
    have "\<forall>p\<in>set (acc @ pages_of_crawls rt (crawledUrls w)). truthy (page_title p)"
      using Cons.prems by (auto dest: pages_of_crawls_truthy)
    from Cons.IH [OF this] Cons.IH [OF Cons.prems] Str show ?thesis by simp
  qed (use Cons.prems in simp_all)
qed

lemma pages_of_crawls_filter:
  "pages_of_crawls rt (filter (\<lambda>c. title c \<noteq> Null) cs) = pages_of_crawls rt cs"
  by (induction cs) auto

lemma pages_loop_filter:
  "pages_loop rt (map (\<lambda>w. w\<lparr>crawledUrls := filter (\<lambda>c. title c \<noteq> Null) (crawledUrls w)\<rparr>) ws) acc
   = pages_loop rt ws acc"
  by (induction ws arbitrary: acc) (simp_all add: pages_of_crawls_filter split: jstr.splits)

lemma pages_loop_patch:
  "filename w = Str f \<Longrightarrow> str_includes f MISSING_URLS_PATCH \<Longrightarrow>
   pages_loop rt (ws1 @ w # ws2) acc = pages_loop rt (ws1 @ ws2) acc"
  by (induction ws1 arbitrary: acc) (simp_all split: jstr.splits)

lemma pages_loop_contains:
  "snd (pages_loop rt ws acc) = None \<Longrightarrow> w \<in> set ws \<Longrightarrow> filename w = Str f \<Longrightarrow>
   \<not> str_includes f MISSING_URLS_PATCH \<Longrightarrow>
   set (pages_of_crawls rt (crawledUrls w)) \<subseteq> set (fst (pages_loop rt ws acc))"
proof (induction ws arbitrary: acc)
  case Nil
  then show ?case by simp
next
  case (Cons v vs)
  from Cons.prems(1) obtain g where g: "filename v = Str g"
    by (cases "filename v") simp_all
  let ?acc' = "if str_includes g MISSING_URLS_PATCH then acc
               else acc @ pages_of_crawls rt (crawledUrls v)"
  have step: "pages_loop rt (v # vs) acc = pages_loop rt vs ?acc'"
    using g by simp
  show ?case
  proof (cases "w = v")
    case True
    with g Cons.prems have "?acc' = acc @ pages_of_crawls rt (crawledUrls w)" by simp
    then have "set (pages_of_crawls rt (crawledUrls w)) \<subseteq> set ?acc'" by simp
    also have "set ?acc' \<subseteq> set (fst (pages_loop rt vs ?acc'))"
      by (subst pages_loop_acc) simp
    finally show ?thesis unfolding step .
  next
    case False
    with Cons.prems have "w \<in> set vs" by simp
    moreover from Cons.prems(1) have "snd (pages_loop rt vs ?acc') = None"
      unfolding step .
    ultimately show ?thesis
      unfolding step using Cons.IH Cons.prems(3,4) by blast
  qed
qed

text \<open>
  C9. \<^verbatim>\<open>generatePagesList\<close> never emits a page for a crawled URL whose title is null:
  no emitted page has a null title, and removing the null-titled crawled URLs from every
  WARC changes nothing. A WARC whose filename contains \<^verbatim>\<open>MISSING_URLS_PATCH\<close> contributes
  no page whatever its \<^verbatim>\<open>crawledUrls\<close> hold: the result is the one obtained without it.
\<close>

theorem generatePagesList_exclusion:
  "(\<forall>p\<in>set (fst (generatePagesList rt warcs)). page_title p \<noteq> Null)
   \<and> generatePagesList rt
         (map (\<lambda>w. w\<lparr>crawledUrls := filter (\<lambda>c. title c \<noteq> Null) (crawledUrls w)\<rparr>) warcs)
       = generatePagesList rt warcs
   \<and> (filename w = Str f \<and> str_includes f MISSING_URLS_PATCH \<longrightarrow>
        generatePagesList rt (ws1 @ w # ws2) = generatePagesList rt (ws1 @ ws2))"
proof (intro conjI impI)
  have "\<forall>p\<in>set (fst (pages_loop rt warcs [])). truthy (page_title p)"
    by (rule pages_loop_truthy) simp
  then show "\<forall>p\<in>set (fst (generatePagesList rt warcs)). page_title p \<noteq> Null"
    unfolding generatePagesList_def by fastforce
next
  show "generatePagesList rt
         (map (\<lambda>w. w\<lparr>crawledUrls := filter (\<lambda>c. title c \<noteq> Null) (crawledUrls w)\<rparr>) warcs)
       = generatePagesList rt warcs"
    unfolding generatePagesList_def by (rule pages_loop_filter)
next
  assume "filename w = Str f \<and> str_includes f MISSING_URLS_PATCH"
  then show "generatePagesList rt (ws1 @ w # ws2) = generatePagesList rt (ws1 @ ws2)"
    unfolding generatePagesList_def by (simp add: pages_loop_patch)
qed

theorem generatePagesList_exclusion_witness:
  "filename patch_warc = Str ''ARCHIVEIT-1-MISSING_URLS_PATCH-2.warc.gz''
   \<and> str_includes ''ARCHIVEIT-1-MISSING_URLS_PATCH-2.warc.gz'' MISSING_URLS_PATCH
   \<and> generatePagesList iso_date ([] @ patch_warc # [plain_warc]) = generatePagesList iso_date ([] @ [plain_warc])
   \<and> generatePagesList iso_date [patch_warc, plain_warc]
       = ([\<lparr>page_url = Str ''https://example.com'', page_title = Str ''Example'',
             ts = Str ''2021-04-30T20:04:57Z''\<rparr>], None)"
  using generatePagesList_exclusion [of iso_date "[patch_warc, plain_warc]" patch_warc
      "''ARCHIVEIT-1-MISSING_URLS_PATCH-2.warc.gz''" "[]" "[plain_warc]"]
  by (simp add: generatePagesList_def patch_warc_def plain_warc_def titled_crawl_def
      untitled_crawl_def MISSING_URLS_PATCH_def formatTimestamp_example)

text \<open>
  C2 as stated fails: a crawled URL with a title and a timestamp that is not a date
  still gets its page, with \<^verbatim>\<open>ts\<close> null.
\<close>

theorem generatePagesList_unparseable_counterexample:
  "formatTimestamp iso_date (timestamp garbled_crawl) = Null
   \<and> generatePagesList iso_date [garbled_warc]
       = ([\<lparr>page_url = Str ''https://example.com'', page_title = Str ''Example'', ts = Null\<rparr>],
          None)"
  by (simp add: generatePagesList_def garbled_warc_def garbled_crawl_def plain_warc_def
      titled_crawl_def MISSING_URLS_PATCH_def formatTimestamp_garbage)

text \<open>
  C2, amended. When \<^verbatim>\<open>generatePagesList\<close> returns normally, every crawled URL with a
  non-empty title in a WARC that is not a \<^verbatim>\<open>MISSING_URLS_PATCH\<close> batch, and whose
  timestamp fails normalization, has a page in the list, with its url and title and with
  \<^verbatim>\<open>ts\<close> null.
\<close>

theorem generatePagesList_unparseable_null_ts:
  assumes "snd (generatePagesList rt warcs) = None"
    and "w \<in> set warcs" and "filename w = Str f" and "\<not> str_includes f MISSING_URLS_PATCH"
    and "c \<in> set (crawledUrls w)" and "truthy (title c)"
    and "formatTimestamp rt (timestamp c) = Null"
  shows "\<lparr>page_url = url c, page_title = title c, ts = Null\<rparr>
           \<in> set (fst (generatePagesList rt warcs))"
proof -
  have "\<lparr>page_url = url c, page_title = title c, ts = formatTimestamp rt (timestamp c)\<rparr>
          \<in> set (pages_of_crawls rt (crawledUrls w))"
    using assms(5,6) by (rule pages_of_crawls_mem)
  moreover have "set (pages_of_crawls rt (crawledUrls w)) \<subseteq> set (fst (pages_loop rt warcs []))"
    using assms(1-4) unfolding generatePagesList_def by (rule pages_loop_contains)
  ultimately show ?thesis
    unfolding generatePagesList_def assms(7) by blast
qed

theorem generatePagesList_unparseable_null_ts_witness:
  "snd (generatePagesList iso_date [garbled_warc]) = None
   \<and> garbled_warc \<in> set [garbled_warc]
   \<and> filename garbled_warc = Str ''capture1.warc.gz''
   \<and> \<not> str_includes ''capture1.warc.gz'' MISSING_URLS_PATCH
   \<and> garbled_crawl \<in> set (crawledUrls garbled_warc)
   \<and> truthy (title garbled_crawl)
   \<and> formatTimestamp iso_date (timestamp garbled_crawl) = Null
   \<and> \<lparr>page_url = url garbled_crawl, page_title = title garbled_crawl, ts = Null\<rparr>
        \<in> set (fst (generatePagesList iso_date [garbled_warc]))"
proof -
  have h1: "snd (generatePagesList iso_date [garbled_warc]) = None"
    by (simp add: generatePagesList_def garbled_warc_def plain_warc_def MISSING_URLS_PATCH_def)
  have h3: "filename garbled_warc = Str ''capture1.warc.gz''"
    by (simp add: garbled_warc_def plain_warc_def)
  have h4: "\<not> str_includes ''capture1.warc.gz'' MISSING_URLS_PATCH"
    by (simp add: MISSING_URLS_PATCH_def)
  have h5: "garbled_crawl \<in> set (crawledUrls garbled_warc)"
    by (simp add: garbled_warc_def)
  have h6: "truthy (title garbled_crawl)"
    by (simp add: garbled_crawl_def titled_crawl_def)
  have h7: "formatTimestamp iso_date (timestamp garbled_crawl) = Null"
    by (simp add: garbled_crawl_def formatTimestamp_garbage)
  have h2: "garbled_warc \<in> set [garbled_warc]" by simp
  from generatePagesList_unparseable_null_ts [OF h1 h2 h3 h4 h5 h6 h7] h1 h2 h3 h4 h5 h6 h7
  show ?thesis by blast
qed

subsection \<open>Loose files\<close>

text \<open>
  C4. The claim is that a directory entry without the \<^verbatim>\<open>.warc.gz\<close> extension is left
  untouched. On a folder holding \<^verbatim>\<open>notes.txt\<close> and the referenced
  \<^verbatim>\<open>capture1.warc.gz\<close>, \<^verbatim>\<open>deleteLooseWARCs\<close> returns normally and \<^verbatim>\<open>notes.txt\<close> is gone.
\<close>

theorem deleteLooseWARCs_removes_other_files:
  "snd (deleteLooseWARCs notes_object) = None
   \<and> folder (fst (deleteLooseWARCs notes_object)) = [(''capture1.warc.gz'', File ''data'')]"
  by (simp add: deleteLooseWARCs_def notes_object_def example_object_def plain_warc_def
      readdir_def in_object_def Object_prototype_def log_to_def rm_def suffix_to_prefix)

subsection \<open>Hash verification\<close>

lemma map_of_filter_name:
  "map_of (filter (\<lambda>e. fst e \<noteq> k) d) n = (if n = k then None else map_of d n)"
  by (induction d) auto

lemma rm_frame:
  "rm d k = Inr d' \<Longrightarrow> map_of d' n = (if n = k then None else map_of d n)"
  by (auto simp: rm_def map_of_filter_name split: option.splits node.splits)

lemma check_entry_absent:
  "map_of d (key_of (filename e)) = None \<Longrightarrow>
   check_entry sha1 e d lg = (e\<lparr>downloaded := False\<rparr>, d, lg, None)"
  by (simp add: check_entry_def access_def)

lemma check_entry_match:
  "map_of d (key_of (filename e)) = Some (File c) \<Longrightarrow> Str (sha1 c) = remoteSHA1Hash e \<Longrightarrow>
   \<exists>lg'. check_entry sha1 e d lg
     = (e\<lparr>downloaded := True, localSHA1Hash := Str (sha1 c)\<rparr>, d, lg', None)"
  by (simp add: check_entry_def access_def readFile_def Let_def)

lemma check_entry_mismatch:
  "map_of d (key_of (filename e)) = Some (File c) \<Longrightarrow> sha1 c \<noteq> [] \<Longrightarrow>
   Str (sha1 c) \<noteq> remoteSHA1Hash e \<Longrightarrow>
   \<exists>lg'. check_entry sha1 e d lg
     = (e\<lparr>downloaded := False, localSHA1Hash := Str (sha1 c)\<rparr>,
        filter (\<lambda>x. fst x \<noteq> key_of (filename e)) d, lg', None)"
  by (simp add: check_entry_def access_def readFile_def rm_def Let_def)

lemma check_entry_frame:
  "check_entry sha1 e d lg = (e', d', lg', r) \<Longrightarrow> n \<noteq> key_of (filename e) \<Longrightarrow>
   map_of d' n = map_of d n"
  by (auto simp: check_entry_def access_def Let_def map_of_filter_name dest: rm_frame
      split: sum.splits if_splits prod.splits)

lemma check_loop_Cons_None:
  assumes "check_loop sha1 (e # es) d lg = (es', d', lg', None)"
  obtains e1 d1 lg1 es1 where "check_entry sha1 e d lg = (e1, d1, lg1, None)"
    and "check_loop sha1 es d1 lg1 = (es1, d', lg', None)" and "es' = e1 # es1"
  using assms by (auto split: prod.splits option.splits)

lemma check_loop_marks:
  assumes "distinct (map (\<lambda>e. key_of (filename e)) es)"
    and "check_loop sha1 es d lg = (es', d', lg', None)"
  shows "length es' = length es
    \<and> (\<forall>n. n \<notin> (\<lambda>e. key_of (filename e)) ` set es \<longrightarrow> map_of d' n = map_of d n)
    \<and> (\<forall>i<length es.
          (map_of d (key_of (filename (es ! i))) = None \<longrightarrow> \<not> downloaded (es' ! i))
        \<and> (\<forall>c. map_of d (key_of (filename (es ! i))) = Some (File c) \<and> sha1 c \<noteq> []
                \<and> Str (sha1 c) \<noteq> remoteSHA1Hash (es ! i)
              \<longrightarrow> \<not> downloaded (es' ! i) \<and> map_of d' (key_of (filename (es ! i))) = None)
        \<and> (\<forall>c. map_of d (key_of (filename (es ! i))) = Some (File c)
                \<and> Str (sha1 c) = remoteSHA1Hash (es ! i)
              \<longrightarrow> downloaded (es' ! i)
                  \<and> map_of d' (key_of (filename (es ! i))) = Some (File c)))"
  using assms
proof (induction es arbitrary: d lg es' d' lg')
  case Nil
  then show ?case by simp
next
  case (Cons e es)
  let ?key = "\<lambda>e. key_of (filename e)"
  from Cons.prems(2) obtain e1 d1 lg1 es1
    where ce: "check_entry sha1 e d lg = (e1, d1, lg1, None)"
      and cl: "check_loop sha1 es d1 lg1 = (es1, d', lg', None)"
      and es': "es' = e1 # es1"
    by (rule check_loop_Cons_None)
  from Cons.prems(1) have dist: "distinct (map ?key es)" and fresh: "?key e \<notin> ?key ` set es"
    by auto
  note IH = Cons.IH [OF dist cl]
  from IH have len: "length es1 = length es" by blast
  from IH have frame: "\<And>n. n \<notin> ?key ` set es \<Longrightarrow> map_of d' n = map_of d1 n" by blast
  have frame1: "\<And>n. n \<noteq> ?key e \<Longrightarrow> map_of d1 n = map_of d n"
    using ce by (rule check_entry_frame)
  have head_kept: "map_of d' (?key e) = map_of d1 (?key e)"
    using fresh by (rule frame)
  have A: "length es' = length (e # es)" using len es' by simp
  have B: "\<forall>n. n \<notin> ?key ` set (e # es) \<longrightarrow> map_of d' n = map_of d n"
    using frame frame1 by auto
  have C0: "(map_of d (?key e) = None \<longrightarrow> \<not> downloaded e1)
        \<and> (\<forall>c. map_of d (?key e) = Some (File c) \<and> sha1 c \<noteq> []
                \<and> Str (sha1 c) \<noteq> remoteSHA1Hash e
              \<longrightarrow> \<not> downloaded e1 \<and> map_of d' (?key e) = None)
        \<and> (\<forall>c. map_of d (?key e) = Some (File c) \<and> Str (sha1 c) = remoteSHA1Hash e
              \<longrightarrow> downloaded e1 \<and> map_of d' (?key e) = Some (File c))"
  proof (intro conjI allI impI)
    assume "map_of d (?key e) = None"
    from check_entry_absent [OF this, of sha1 lg] ce show "\<not> downloaded e1" by auto
  next
    fix c assume h: "map_of d (?key e) = Some (File c) \<and> sha1 c \<noteq> []
        \<and> Str (sha1 c) \<noteq> remoteSHA1Hash e"
    with check_entry_mismatch [of d e c sha1 lg] ce
    have e1: "e1 = e\<lparr>downloaded := False, localSHA1Hash := Str (sha1 c)\<rparr>"
      and d1: "d1 = filter (\<lambda>x. fst x \<noteq> ?key e) d" by auto
    from e1 show "\<not> downloaded e1" by simp
    from d1 head_kept show "map_of d' (?key e) = None" by (simp add: map_of_filter_name)
  next
    fix c assume h: "map_of d (?key e) = Some (File c) \<and> Str (sha1 c) = remoteSHA1Hash e"
    with check_entry_match [of d e c sha1 lg] ce
    have e1: "e1 = e\<lparr>downloaded := True, localSHA1Hash := Str (sha1 c)\<rparr>" and d1: "d1 = d"
      by auto
    from e1 show "downloaded e1" by simp
    from d1 head_kept h show "map_of d' (?key e) = Some (File c)" by simp
  qed
  have C: "\<forall>i<length (e # es).
          (map_of d (?key ((e # es) ! i)) = None \<longrightarrow> \<not> downloaded (es' ! i))
        \<and> (\<forall>c. map_of d (?key ((e # es) ! i)) = Some (File c) \<and> sha1 c \<noteq> []
                \<and> Str (sha1 c) \<noteq> remoteSHA1Hash ((e # es) ! i)
              \<longrightarrow> \<not> downloaded (es' ! i) \<and> map_of d' (?key ((e # es) ! i)) = None)
        \<and> (\<forall>c. map_of d (?key ((e # es) ! i)) = Some (File c)
                \<and> Str (sha1 c) = remoteSHA1Hash ((e # es) ! i)
              \<longrightarrow> downloaded (es' ! i)
                  \<and> map_of d' (?key ((e # es) ! i)) = Some (File c))"
  proof (intro allI impI)
    fix i assume i: "i < length (e # es)"
    show "(map_of d (?key ((e # es) ! i)) = None \<longrightarrow> \<not> downloaded (es' ! i))
        \<and> (\<forall>c. map_of d (?key ((e # es) ! i)) = Some (File c) \<and> sha1 c \<noteq> []
                \<and> Str (sha1 c) \<noteq> remoteSHA1Hash ((e # es) ! i)
              \<longrightarrow> \<not> downloaded (es' ! i) \<and> map_of d' (?key ((e # es) ! i)) = None)
        \<and> (\<forall>c. map_of d (?key ((e # es) ! i)) = Some (File c)
                \<and> Str (sha1 c) = remoteSHA1Hash ((e # es) ! i)
              \<longrightarrow> downloaded (es' ! i)
                  \<and> map_of d' (?key ((e # es) ! i)) = Some (File c))"
    proof (cases i)
      case 0
      with C0 es' show ?thesis by auto
    next
      case (Suc j)
      with i have j: "j < length es" by simp
      then have "?key (es ! j) \<in> ?key ` set es" by simp
      with fresh have "?key (es ! j) \<noteq> ?key e" by metis
      then have same: "map_of d1 (?key (es ! j)) = map_of d (?key (es ! j))" by (rule frame1)
      from IH j have
        "(map_of d1 (?key (es ! j)) = None \<longrightarrow> \<not> downloaded (es1 ! j))
        \<and> (\<forall>c. map_of d1 (?key (es ! j)) = Some (File c) \<and> sha1 c \<noteq> []
                \<and> Str (sha1 c) \<noteq> remoteSHA1Hash (es ! j)
              \<longrightarrow> \<not> downloaded (es1 ! j) \<and> map_of d' (?key (es ! j)) = None)
        \<and> (\<forall>c. map_of d1 (?key (es ! j)) = Some (File c)
                \<and> Str (sha1 c) = remoteSHA1Hash (es ! j)
              \<longrightarrow> downloaded (es1 ! j) \<and> map_of d' (?key (es ! j)) = Some (File c))"
        by blast
      then show ?thesis unfolding same Suc es' by auto
    qed
  qed
  from A B C show ?case by blast
qed

lemma check_entry_returns:
  assumes "map_of d (key_of (filename e)) \<noteq> Some Directory"
  shows "snd (snd (snd (check_entry sha1 e d lg))) = None"
proof (cases "map_of d (key_of (filename e))")
  case None
  then show ?thesis by (simp add: check_entry_absent)
next
  case (Some x)
  with assms obtain c where "map_of d (key_of (filename e)) = Some (File c)"
    by (cases x) simp_all
  then show ?thesis
    by (simp add: check_entry_def access_def readFile_def rm_def Let_def)
qed

lemma rm_no_new_directory:
  "rm d k = Inr d' \<Longrightarrow> map_of d n \<noteq> Some Directory \<Longrightarrow> map_of d' n \<noteq> Some Directory"
  using rm_frame [of d k d' n] by (simp split: if_splits)

lemma check_entry_no_new_directory:
  "check_entry sha1 e d lg = (e', d', lg', r) \<Longrightarrow> map_of d n \<noteq> Some Directory \<Longrightarrow>
   map_of d' n \<noteq> Some Directory"
  by (auto simp: check_entry_def access_def Let_def dest: rm_no_new_directory
      split: sum.splits if_splits prod.splits)

lemma check_loop_returns:
  "\<forall>e\<in>set es. map_of d (key_of (filename e)) \<noteq> Some Directory \<Longrightarrow>
   snd (snd (snd (check_loop sha1 es d lg))) = None"
proof (induction es arbitrary: d lg)
  case Nil
  show ?case by simp
next
  case (Cons e es)
  obtain e1 d1 lg1 r where ce: "check_entry sha1 e d lg = (e1, d1, lg1, r)"
    by (cases "check_entry sha1 e d lg") auto
  from check_entry_returns [of d e sha1 lg] Cons.prems ce have r: "r = None" by simp
  have "\<forall>x\<in>set es. map_of d1 (key_of (filename x)) \<noteq> Some Directory"
    using Cons.prems check_entry_no_new_directory [OF ce] by simp
  from Cons.IH [OF this, of lg1] ce r show ?case
    by (auto split: prod.splits)
qed

lemma checkWARCsHashes_returns:
  "\<forall>e\<in>set (WARCs st). map_of (folder st) (key_of (filename e)) \<noteq> Some Directory \<Longrightarrow>
   snd (checkWARCsHashes sha1 st) = None"
  using check_loop_returns [of "WARCs st" "folder st" sha1 "logged st"]
  by (auto simp: checkWARCsHashes_def split: prod.splits)


text \<open>
  C7. After a call of \<^verbatim>\<open>checkWARCsHashes\<close> that returns, on references with pairwise
  different filenames, every reference satisfies: if its file was absent, \<^verbatim>\<open>downloaded\<close>
  is false; if the file was present and its digest is non-empty and differs from
  \<^verbatim>\<open>remoteSHA1Hash\<close>, the file is deleted and \<^verbatim>\<open>downloaded\<close> is false; if the file was
  present and its digest equals \<^verbatim>\<open>remoteSHA1Hash\<close>, \<^verbatim>\<open>downloaded\<close> is true and the file is
  still there.
\<close>

theorem checkWARCsHashes_marks:
  assumes "distinct (map (\<lambda>e. key_of (filename e)) (WARCs st))"
    and "checkWARCsHashes sha1 st = (st', None)"
    and "i < length (WARCs st)"
  shows "length (WARCs st') = length (WARCs st)
    \<and> (map_of (folder st) (key_of (filename (WARCs st ! i))) = None
          \<longrightarrow> \<not> downloaded (WARCs st' ! i))
    \<and> (\<forall>c. map_of (folder st) (key_of (filename (WARCs st ! i))) = Some (File c)
            \<and> sha1 c \<noteq> [] \<and> Str (sha1 c) \<noteq> remoteSHA1Hash (WARCs st ! i)
          \<longrightarrow> \<not> downloaded (WARCs st' ! i)
              \<and> map_of (folder st') (key_of (filename (WARCs st ! i))) = None)
    \<and> (\<forall>c. map_of (folder st) (key_of (filename (WARCs st ! i))) = Some (File c)
            \<and> Str (sha1 c) = remoteSHA1Hash (WARCs st ! i)
          \<longrightarrow> downloaded (WARCs st' ! i)
              \<and> map_of (folder st') (key_of (filename (WARCs st ! i))) = Some (File c))"
proof -
  obtain es' d' lg' where cl: "check_loop sha1 (WARCs st) (folder st) (logged st) = (es', d', lg', None)"
    and st': "st' = st\<lparr>WARCs := es', folder := d', logged := lg'\<rparr>"
    using assms(2) by (auto simp: checkWARCsHashes_def split: prod.splits)
  from check_loop_marks [OF assms(1) cl] assms(3) show ?thesis
    unfolding st' by auto
qed

theorem checkWARCsHashes_marks_witness:
  "distinct (map (\<lambda>e. key_of (filename e)) (WARCs hashes_object))
   \<and> snd (checkWARCsHashes toy_digest hashes_object) = None
   \<and> map_of (folder hashes_object) ''absent.warc.gz'' = None
   \<and> \<not> downloaded (WARCs (fst (checkWARCsHashes toy_digest hashes_object)) ! 0)
   \<and> map_of (folder hashes_object) ''bad.warc.gz'' = Some (File ''junk'')
   \<and> toy_digest ''junk'' \<noteq> [] \<and> Str (toy_digest ''junk'') \<noteq> remoteSHA1Hash (WARCs hashes_object ! 1)
   \<and> \<not> downloaded (WARCs (fst (checkWARCsHashes toy_digest hashes_object)) ! 1)
   \<and> map_of (folder (fst (checkWARCsHashes toy_digest hashes_object))) ''bad.warc.gz'' = None
   \<and> map_of (folder hashes_object) ''capture1.warc.gz'' = Some (File ''data'')
   \<and> Str (toy_digest ''data'') = remoteSHA1Hash (WARCs hashes_object ! 2)
   \<and> downloaded (WARCs (fst (checkWARCsHashes toy_digest hashes_object)) ! 2)
   \<and> map_of (folder (fst (checkWARCsHashes toy_digest hashes_object))) ''capture1.warc.gz''
       = Some (File ''data'')"
proof -
  let ?st' = "fst (checkWARCsHashes toy_digest hashes_object)"
  have d: "distinct (map (\<lambda>e. key_of (filename e)) (WARCs hashes_object))"
    by (simp add: hashes_object_def example_object_def plain_warc_def)
  have n: "snd (checkWARCsHashes toy_digest hashes_object) = None"
    by (simp add: checkWARCsHashes_def check_entry_def access_def readFile_def rm_def
        hashes_object_def example_object_def plain_warc_def toy_digest_def Let_def)
  then have r: "checkWARCsHashes toy_digest hashes_object = (?st', None)"
    by (simp add: prod_eq_iff)
  have keys: "key_of (filename (WARCs hashes_object ! 0)) = ''absent.warc.gz''"
    "key_of (filename (WARCs hashes_object ! 1)) = ''bad.warc.gz''"
    "key_of (filename (WARCs hashes_object ! 2)) = ''capture1.warc.gz''"
    "remoteSHA1Hash (WARCs hashes_object ! 1) = Str ''abc123''"
    "remoteSHA1Hash (WARCs hashes_object ! 2) = Str ''abc123''"
    "key_of (filename (WARCs hashes_object ! Suc 0)) = ''bad.warc.gz''"
    "remoteSHA1Hash (WARCs hashes_object ! Suc 0) = Str ''abc123''"
    "length (WARCs hashes_object) = 3"
    "folder hashes_object = [(''capture1.warc.gz'', File ''data''), (''bad.warc.gz'', File ''junk'')]"
    by (simp_all add: hashes_object_def example_object_def plain_warc_def)
  have t: "toy_digest ''junk'' = ''ffffff''" "toy_digest ''data'' = ''abc123''"
    by (simp_all add: toy_digest_def)
  from checkWARCsHashes_marks [OF d r, of 0] checkWARCsHashes_marks [OF d r, of 1]
    checkWARCsHashes_marks [OF d r, of 2] d n
  show ?thesis by (simp add: keys t)
qed

subsection \<open>The constructor\<close>

lemma constructor_Some:
  assumes "constructor h options = Inr obj"
  obtains opts st where "options = Some opts"
    and "filterBlockingOptions h (Some opts) (new_object h) = Inr st"
    and "obj = filter_signingToken h (opt_signingToken opts)
            (filter_signingUrl h (opt_signingUrl opts)
              (filter_concurrency h (opt_concurrency opts)
                (filter_outputPath h (opt_outputPath opts) st)))"
  using assms
  by (cases options)
     (auto simp: constructor_def filterBlockingOptions_def filterNonBlockingOptions_def
           split: if_splits sum.splits)

lemma filterBlockingOptions_frame:
  "filterBlockingOptions h options st = Inr st' \<Longrightarrow>
   concurrency st' = concurrency st \<and> logged st' = logged st"
  by (auto simp: filterBlockingOptions_def Let_def split: option.splits sum.splits if_splits)

lemma filter_outputPath_frame:
  "concurrency (filter_outputPath h v st) = concurrency st"
  "(Warn, Lit ''\"concurrency\" was not provided or is not a directory. Using '' # m)
     \<in> set (logged (filter_outputPath h v st))
   \<longleftrightarrow> (Warn, Lit ''\"concurrency\" was not provided or is not a directory. Using '' # m)
     \<in> set (logged st)"
  by (auto simp: filter_outputPath_def log_to_def split: jsval.splits option.splits)

lemma filter_signingUrl_frame:
  "concurrency (filter_signingUrl h v st) = concurrency st"
  "(Warn, Lit ''\"concurrency\" was not provided or is not a directory. Using '' # m)
     \<in> set (logged (filter_signingUrl h v st))
   \<longleftrightarrow> (Warn, Lit ''\"concurrency\" was not provided or is not a directory. Using '' # m)
     \<in> set (logged st)"
  by (auto simp: filter_signingUrl_def log_to_def split: option.splits)

lemma filter_signingToken_frame:
  "concurrency (filter_signingToken h v st) = concurrency st"
  "logged (filter_signingToken h v st) = logged st"
  by (auto simp: filter_signingToken_def)

lemma filter_concurrency_cases:
  "filter_concurrency h v st =
     (if \<not> truthy_val v then st
      else if Number h v \<noteq> NaN \<and> js_less (Fin 0) (Number h v) then st\<lparr>concurrency := Number h v\<rparr>
      else st\<lparr>logged := logged st @ [(Trace, [Thrown AssertionError]),
             (Warn, [Lit ''\"concurrency\" was not provided or is not a directory. Using '',
                     Num (concurrency st), Lit '' instead.''])]\<rparr>)"
  by (simp add: filter_concurrency_def log_to_def Let_def)

text \<open>
  C10, amended. When the constructor returns, \<^verbatim>\<open>this.concurrency\<close> is a number greater
  than 0. A \<^verbatim>\<open>concurrency\<close> option that is missing or otherwise falsy is skipped: the
  default 50 stays and no warning is logged. A truthy option whose number is \<^verbatim>\<open>NaN\<close> or
  not greater than 0 leaves the default 50 and logs the warning. A truthy option whose
  number is greater than 0 is stored. No value of the option makes the constructor throw.
\<close>

theorem constructor_concurrency:
  assumes "constructor h options = Inr obj"
  shows "js_less (Fin 0) (concurrency obj) \<and> concurrency obj \<noteq> NaN
    \<and> (\<exists>opts. options = Some opts
        \<and> (\<not> truthy_val (opt_concurrency opts) \<longrightarrow>
              concurrency obj = Fin 50
              \<and> (\<forall>m. (Warn, Lit ''\"concurrency\" was not provided or is not a directory. Using '' # m)
                     \<notin> set (logged obj)))
        \<and> (truthy_val (opt_concurrency opts)
             \<and> (Number h (opt_concurrency opts) = NaN
                 \<or> \<not> js_less (Fin 0) (Number h (opt_concurrency opts))) \<longrightarrow>
              concurrency obj = Fin 50
              \<and> (Warn, [Lit ''\"concurrency\" was not provided or is not a directory. Using '',
                        Num (Fin 50), Lit '' instead.'']) \<in> set (logged obj))
        \<and> (truthy_val (opt_concurrency opts) \<and> Number h (opt_concurrency opts) \<noteq> NaN
             \<and> js_less (Fin 0) (Number h (opt_concurrency opts)) \<longrightarrow>
              concurrency obj = Number h (opt_concurrency opts))
        \<and> (\<forall>v. \<exists>obj'. constructor h (Some (opts\<lparr>opt_concurrency := v\<rparr>)) = Inr obj'))"
proof -
  from assms obtain opts st where options: "options = Some opts"
    and st: "filterBlockingOptions h (Some opts) (new_object h) = Inr st"
    and obj: "obj = filter_signingToken h (opt_signingToken opts)
            (filter_signingUrl h (opt_signingUrl opts)
              (filter_concurrency h (opt_concurrency opts)
                (filter_outputPath h (opt_outputPath opts) st)))"
    by (rule constructor_Some)
  let ?st1 = "filter_outputPath h (opt_outputPath opts) st"
  let ?v = "opt_concurrency opts"
  from filterBlockingOptions_frame [OF st]
  have st_c: "concurrency st = Fin 50" and st_l: "logged st = []"
    by (simp_all add: new_object_def)
  have c1: "concurrency ?st1 = Fin 50" by (simp add: filter_outputPath_frame st_c)
  have l1: "\<And>m. (Warn, Lit ''\"concurrency\" was not provided or is not a directory. Using '' # m)
      \<notin> set (logged ?st1)"
    by (simp add: filter_outputPath_frame st_l)
  have c: "concurrency obj = concurrency (filter_concurrency h ?v ?st1)"
    unfolding obj by (simp add: filter_signingToken_frame filter_signingUrl_frame)
  have l: "\<And>m. (Warn, Lit ''\"concurrency\" was not provided or is not a directory. Using '' # m)
        \<in> set (logged obj)
      \<longleftrightarrow> (Warn, Lit ''\"concurrency\" was not provided or is not a directory. Using '' # m)
        \<in> set (logged (filter_concurrency h ?v ?st1))"
    unfolding obj by (simp add: filter_signingToken_frame filter_signingUrl_frame)
  have pos: "js_less (Fin 0) (concurrency obj) \<and> concurrency obj \<noteq> NaN"
    unfolding c by (simp add: filter_concurrency_cases c1)
  have falsy: "\<not> truthy_val ?v \<longrightarrow> concurrency obj = Fin 50
      \<and> (\<forall>m. (Warn, Lit ''\"concurrency\" was not provided or is not a directory. Using '' # m)
             \<notin> set (logged obj))"
    unfolding c l using l1 by (simp add: filter_concurrency_cases c1)
  have bad: "truthy_val ?v \<and> (Number h ?v = NaN \<or> \<not> js_less (Fin 0) (Number h ?v)) \<longrightarrow>
      concurrency obj = Fin 50
      \<and> (Warn, [Lit ''\"concurrency\" was not provided or is not a directory. Using '',
                Num (Fin 50), Lit '' instead.'']) \<in> set (logged obj)"
    unfolding c l by (auto simp: filter_concurrency_cases c1)
  have good: "truthy_val ?v \<and> Number h ?v \<noteq> NaN \<and> js_less (Fin 0) (Number h ?v) \<longrightarrow>
      concurrency obj = Number h ?v"
    unfolding c by (simp add: filter_concurrency_cases)
  have total: "\<forall>v. \<exists>obj'. constructor h (Some (opts\<lparr>opt_concurrency := v\<rparr>)) = Inr obj'"
  proof
    fix v
    from assms have "\<not> (case opt_log opts of None \<Rightarrow> False | Some l \<Rightarrow> \<not> compatible l)"
      unfolding options by (auto simp: constructor_def split: if_splits)
    moreover have "filterBlockingOptions h (Some (opts\<lparr>opt_concurrency := v\<rparr>)) (new_object h)
        = filterBlockingOptions h (Some opts) (new_object h)"
      by (simp add: filterBlockingOptions_def split: sum.splits)
    ultimately show "\<exists>obj'. constructor h (Some (opts\<lparr>opt_concurrency := v\<rparr>)) = Inr obj'"
      using st by (simp add: constructor_def)
  qed
  from options pos falsy bad good total show ?thesis by blast
qed

theorem constructor_concurrency_witness:
  "constructor example_host (Some (example_options\<lparr>opt_concurrency := JNumber (Fin (- 3))\<rparr>))
     = Inr (constructed_object\<lparr>logged := [(Trace, [Thrown AssertionError]),
         (Warn, [Lit ''\"concurrency\" was not provided or is not a directory. Using '',
                 Num (Fin 50), Lit '' instead.''])]\<rparr>)
   \<and> truthy_val (JNumber (Fin (- 3)))
   \<and> \<not> js_less (Fin 0) (Number example_host (JNumber (Fin (- 3))))
   \<and> constructor example_host (Some (example_options\<lparr>opt_concurrency := JString ''8''\<rparr>))
     = Inr (constructed_object\<lparr>concurrency := Fin 8\<rparr>)
   \<and> truthy_val (JString ''8'') \<and> js_less (Fin 0) (Number example_host (JString ''8''))
   \<and> constructor example_host (Some example_options) = Inr constructed_object
   \<and> \<not> truthy_val (opt_concurrency example_options)
   \<and> js_less (Fin 0) (concurrency constructed_object)"
proof -
  have s8: "StringToNumber example_host ''8'' = Fin 8"
    by (simp add: example_host_def number_of_def digit_val_def)
  then have n8: "Number example_host (JString ''8'') = Fin 8"
    by simp
  have e1: "constructor example_host (Some (example_options\<lparr>opt_concurrency := JNumber (Fin (- 3))\<rparr>))
     = Inr (constructed_object\<lparr>logged := [(Trace, [Thrown AssertionError]),
         (Warn, [Lit ''\"concurrency\" was not provided or is not a directory. Using '',
                 Num (Fin 50), Lit '' instead.''])]\<rparr>)"
    by (simp add: constructor_def filterBlockingOptions_def filterNonBlockingOptions_def
        filter_outputPath_def filter_concurrency_def filter_signingUrl_def filter_signingToken_def
        trimmed_def trim_def is_space_def example_options_def constructed_object_def new_object_def
        log_to_def)
  have e2: "constructor example_host (Some (example_options\<lparr>opt_concurrency := JString ''8''\<rparr>))
     = Inr (constructed_object\<lparr>concurrency := Fin 8\<rparr>)"
    by (simp add: constructor_def filterBlockingOptions_def filterNonBlockingOptions_def
        filter_outputPath_def filter_concurrency_def filter_signingUrl_def filter_signingToken_def
        trimmed_def trim_def is_space_def example_options_def constructed_object_def new_object_def
        log_to_def s8)
  have e3: "constructor example_host (Some example_options) = Inr constructed_object"
    by (simp add: constructor_def filterBlockingOptions_def filterNonBlockingOptions_def
        filter_outputPath_def filter_concurrency_def filter_signingUrl_def filter_signingToken_def
        trimmed_def trim_def is_space_def example_options_def constructed_object_def new_object_def
        log_to_def)
  have f: "\<not> truthy_val (opt_concurrency example_options)"
    by (simp add: example_options_def)
  from constructor_concurrency [OF e3] have "js_less (Fin 0) (concurrency constructed_object)"
    by blast
  with constructor_concurrency [OF e1] constructor_concurrency [OF e2] e1 e2 e3 f n8
  show ?thesis by simp
qed

text \<open>
  C10 as stated fails: with no \<^verbatim>\<open>concurrency\<close> option, and with the option 0, the object
  is built with the default 50 and nothing is logged, so there is no warning.
\<close>

theorem constructor_concurrency_counterexample:
  "opt_concurrency example_options = JUndefined
   \<and> constructor example_host (Some example_options) = Inr constructed_object
   \<and> constructor example_host (Some (example_options\<lparr>opt_concurrency := JNumber (Fin 0)\<rparr>))
       = Inr constructed_object
   \<and> concurrency constructed_object = Fin 50
   \<and> logged constructed_object = []"
  by (simp add: constructor_def filterBlockingOptions_def filterNonBlockingOptions_def
      filter_outputPath_def filter_concurrency_def filter_signingUrl_def filter_signingToken_def
      trimmed_def trim_def is_space_def example_options_def constructed_object_def new_object_def
      log_to_def)

subsection \<open>The orchestrator\<close>

lemma blocking_falsy:
  "(\<And>s. \<not> truthy_val (snd (rest s))) \<Longrightarrow> \<not> truthy_val (snd (blocking msg f caught rest st))"
  by (simp add: blocking_def split: prod.splits option.splits)

lemma non_blocking_falsy:
  "(\<And>s. \<not> truthy_val (snd (rest s))) \<Longrightarrow> \<not> truthy_val (snd (non_blocking msg f caught rest st))"
  by (simp add: non_blocking_def split: prod.splits option.splits)

lemma after_titles_falsy: "\<not> truthy_val (snd (after_titles m st))"
  unfolding after_titles_def by (intro blocking_falsy) simp

lemma from_crawlInfo_falsy: "\<not> truthy_val (snd (from_crawlInfo m st))"
  unfolding from_crawlInfo_def by (intro blocking_falsy non_blocking_falsy after_titles_falsy)

lemma blocking_returns:
  "f (log_to Info (msg st) st) = (st', None) \<Longrightarrow> blocking msg f caught rest st = rest st'"
  by (simp add: blocking_def)

lemma blocking_throws:
  "f (log_to Info (msg st) st) = (st', Some err) \<Longrightarrow>
   blocking msg f caught rest st = (st'\<lparr>logged := logged st' @ caught err\<rparr>, JBool False)"
  by (simp add: blocking_def)

lemma non_blocking_returns:
  "f (log_to Info (msg st) st) = (st', None) \<Longrightarrow> non_blocking msg f caught rest st = rest st'"
  by (simp add: non_blocking_def)

lemma non_blocking_throws:
  "f (log_to Info (msg st) st) = (st', Some err) \<Longrightarrow>
   non_blocking msg f caught rest st = rest (st'\<lparr>logged := logged st' @ caught err\<rparr>)"
  by (simp add: non_blocking_def)

lemma process_reaches_crawlInfo:
  assumes "this_checkCredentials m (log_to Info [Lit ''Checking credentials combination''] st) = (s1, None)"
    and "this_createCollectionFolder m
           (log_to Info [Lit ''Creating collections folder (if not already present)''] s1) = (s2, None)"
    and "this_fetchCollectionInfo m
           (log_to Info [Lit ''Pulling collection information for '', Num (collectionId s2)] s2) = (s3, None)"
    and "this_fetchWARCsList m
           (log_to Info [Lit ''Listing WARC files from collection '', Num (collectionId s3)] s3) = (s4, None)"
  shows "process m st
    = from_crawlInfo m (log_to Info [Count (length (WARCs s4)), Lit '' entries found in total.''] s4)"
  unfolding process_def
  by (simp add: blocking_returns assms)

text \<open>
  C1. The claim is that \<^verbatim>\<open>process\<close> returns a truthy value when every gating stage
  completes. Whatever the stages do, the value \<^verbatim>\<open>process\<close> returns is never truthy; when
  every stage returns, on the example object, it is \<^verbatim>\<open>undefined\<close>.
\<close>

theorem process_never_truthy:
  "\<not> truthy_val (snd (process m st))
   \<and> snd (process all_succeed example_object) = JUndefined"
proof
  show "\<not> truthy_val (snd (process m st))"
    unfolding process_def by (intro blocking_falsy from_crawlInfo_falsy)
  show "snd (process all_succeed example_object) = JUndefined"
    by (simp add: process_def from_crawlInfo_def after_titles_def blocking_def non_blocking_def
        all_succeed_def returns_def)
qed

text \<open>
  C3, amended. Once the first four stages have returned: an error thrown by
  \<^verbatim>\<open>fetchWARCsCrawlInfo\<close> is logged and \<^verbatim>\<open>process\<close> returns false at once, with the
  object as that stage left it; an error thrown by \<^verbatim>\<open>fetchCrawledUrlsTitle\<close> is logged
  and \<^verbatim>\<open>process\<close> goes on with \<^verbatim>\<open>deleteLooseWARCs\<close> and the stages after it.
\<close>

theorem process_enrichment_errors:
  assumes "this_checkCredentials m (log_to Info [Lit ''Checking credentials combination''] st) = (s1, None)"
    and "this_createCollectionFolder m
           (log_to Info [Lit ''Creating collections folder (if not already present)''] s1) = (s2, None)"
    and "this_fetchCollectionInfo m
           (log_to Info [Lit ''Pulling collection information for '', Num (collectionId s2)] s2) = (s3, None)"
    and "this_fetchWARCsList m
           (log_to Info [Lit ''Listing WARC files from collection '', Num (collectionId s3)] s3) = (s4, None)"
    and "s5 = log_to Info [Lit ''Pulling crawl and seed information for each entry'']
                (log_to Info [Count (length (WARCs s4)), Lit '' entries found in total.''] s4)"
  shows "(this_fetchWARCsCrawlInfo m s5 = (s6, Some err) \<longrightarrow>
            process m st
            = (s6\<lparr>logged := logged s6
                   @ [(Err, [Lit ''An error occurred while listing WARC files from collection.'']),
                      (Trace, [Thrown err])]\<rparr>, JBool False))
    \<and> (this_fetchWARCsCrawlInfo m s5 = (s6, None)
        \<and> this_fetchCrawledUrlsTitle m (log_to Info [Lit ''Pulling page titles for each entry''] s6)
            = (s7, Some err) \<longrightarrow>
            process m st
            = after_titles m
                (s7\<lparr>logged := logged s7
                   @ [(Trace, [Thrown err]),
                      (Err, [Lit ''An error occurred while pulling page titles from the Wayback Machine.''])]\<rparr>))"
  unfolding process_reaches_crawlInfo [OF assms(1-4)] from_crawlInfo_def assms(5)
  by (auto simp: blocking_returns blocking_throws non_blocking_throws)

text \<open>
  C3 as stated fails: when \<^verbatim>\<open>fetchWARCsCrawlInfo\<close> throws, \<^verbatim>\<open>process\<close> returns false, the
  title stage is never announced, and the last thing logged is the error of that stage.
\<close>

theorem process_crawlInfo_error_counterexample:
  "snd (process crawlInfo_throws example_object) = JBool False
   \<and> (Info, [Lit ''Pulling page titles for each entry''])
        \<notin> set (logged (fst (process crawlInfo_throws example_object)))
   \<and> last (logged (fst (process crawlInfo_throws example_object)))
       = (Trace, [Thrown (Error [Lit ''request failed''])])"
  by (simp add: process_def from_crawlInfo_def blocking_def non_blocking_def
      crawlInfo_throws_def all_succeed_def returns_def throws_def log_to_def example_object_def)

theorem process_enrichment_errors_witness:
  "process crawlInfo_throws example_object
     = (example_object\<lparr>logged := butlast (logged reached_titles)
          @ [(Err, [Lit ''An error occurred while listing WARC files from collection.'']),
             (Trace, [Thrown (Error [Lit ''request failed''])])]\<rparr>, JBool False)
   \<and> process titles_throw example_object
     = after_titles titles_throw
         (reached_titles\<lparr>logged := logged reached_titles
            @ [(Trace, [Thrown (Error [Lit ''request failed''])]),
               (Err, [Lit ''An error occurred while pulling page titles from the Wayback Machine.''])]\<rparr>)
   \<and> snd (process titles_throw example_object) = JUndefined"
proof -
  let ?s1 = "log_to Info [Lit ''Checking credentials combination''] example_object"
  let ?s2 = "log_to Info [Lit ''Creating collections folder (if not already present)''] ?s1"
  let ?s3 = "log_to Info [Lit ''Pulling collection information for '', Num (collectionId ?s2)] ?s2"
  let ?s4 = "log_to Info [Lit ''Listing WARC files from collection '', Num (collectionId ?s3)] ?s3"
  let ?s5 = "log_to Info [Lit ''Pulling crawl and seed information for each entry'']
               (log_to Info [Count (length (WARCs ?s4)), Lit '' entries found in total.''] ?s4)"
  let ?s6 = "log_to Info [Lit ''Pulling page titles for each entry''] ?s5"
  let ?err = "Error [Lit ''request failed'']"
  have c: "this_checkCredentials crawlInfo_throws = returns"
    "this_createCollectionFolder crawlInfo_throws = returns"
    "this_fetchCollectionInfo crawlInfo_throws = returns"
    "this_fetchWARCsList crawlInfo_throws = returns"
    "this_fetchWARCsCrawlInfo crawlInfo_throws = throws"
    by (simp_all add: crawlInfo_throws_def all_succeed_def)
  have t: "this_checkCredentials titles_throw = returns"
    "this_createCollectionFolder titles_throw = returns"
    "this_fetchCollectionInfo titles_throw = returns"
    "this_fetchWARCsList titles_throw = returns"
    "this_fetchWARCsCrawlInfo titles_throw = returns"
    "this_fetchCrawledUrlsTitle titles_throw = throws"
    by (simp_all add: titles_throw_def all_succeed_def)
  have s5: "?s5 = example_object\<lparr>logged := butlast (logged reached_titles)\<rparr>"
    by (simp add: log_to_def example_object_def reached_titles_def)
  have s6: "?s6 = reached_titles"
    by (simp add: log_to_def example_object_def reached_titles_def)
  have A: "process crawlInfo_throws example_object
     = (?s5\<lparr>logged := logged ?s5
          @ [(Err, [Lit ''An error occurred while listing WARC files from collection.'']),
             (Trace, [Thrown ?err])]\<rparr>, JBool False)"
    using process_enrichment_errors [of crawlInfo_throws example_object ?s1 ?s2 ?s3 ?s4 ?s5 ?s5 ?err]
    by (simp add: c returns_def throws_def)
  have B: "process titles_throw example_object
     = after_titles titles_throw
         (?s6\<lparr>logged := logged ?s6
            @ [(Trace, [Thrown ?err]),
               (Err, [Lit ''An error occurred while pulling page titles from the Wayback Machine.''])]\<rparr>)"
    using process_enrichment_errors [of titles_throw example_object ?s1 ?s2 ?s3 ?s4 ?s5 ?s5 ?err ?s6]
    by (simp add: t returns_def throws_def)
  have C: "snd (process titles_throw example_object) = JUndefined"
    by (simp add: process_def from_crawlInfo_def after_titles_def blocking_def non_blocking_def
        titles_throw_def all_succeed_def returns_def throws_def)
  from A B C show ?thesis
    unfolding s6 unfolding s5 by simp
qed

subsection \<open>Page titles\<close>

text \<open>
  C6. The claim is that a replayed page whose title is the placeholder
  \<^verbatim>\<open>Archive-it Wayback\<close> leaves the title of the crawled URL null. On a crawled URL
  without metadata title and such a page, \<^verbatim>\<open>fetchOne\<close> stores the placeholder as the
  title: the test compares the title found so far, which is falsy at that point, with the
  placeholder, not the text of the page.
\<close>

theorem title_fetchOne_keeps_sentinel:
  "snd (title_fetchOne sentinel_net (0, 0) example_object) = Fulfilled
   \<and> title (crawledUrls (WARCs (fst (title_fetchOne sentinel_net (0, 0) example_object)) ! 0) ! 0)
       = Str ''Archive-it Wayback''"
  by (simp add: title_fetchOne_def metadata_title_def wayback_title_def set_title_def log_to_def
      sentinel_net_def example_object_def plain_warc_def untitled_crawl_def titled_crawl_def Let_def)

text \<open>
  C5. The claim is that title resolution is attempted for every crawled URL of every
  reference that is not a \<^verbatim>\<open>MISSING_URLS_PATCH\<close> batch. With the default concurrency of
  50 and one reference holding two crawled URLs, no group is ever settled and the object
  is unchanged, whatever the network; with a concurrency of 1, only the first crawled URL
  of the reference is attempted.
\<close>

theorem fetchCrawledUrlsTitle_skips_pages:
  "fetchCrawledUrlsTitle net example_object = (example_object, [], None)
   \<and> map (map fst) (fst (snd (fetchCrawledUrlsTitle sentinel_net (example_object\<lparr>concurrency := Fin 1\<rparr>))))
       = [[(0, 0)]]"
proof
  show "fetchCrawledUrlsTitle net example_object = (example_object, [], None)"
    by (simp add: fetchCrawledUrlsTitle_def example_object_def plain_warc_def MISSING_URLS_PATCH_def
        len_def js_ge_def Let_def)
  show "map (map fst) (fst (snd (fetchCrawledUrlsTitle sentinel_net (example_object\<lparr>concurrency := Fin 1\<rparr>))))
       = [[(0, 0)]]"
    by (simp add: fetchCrawledUrlsTitle_def example_object_def plain_warc_def MISSING_URLS_PATCH_def
        len_def js_ge_def Let_def title_fetchOne_def metadata_title_def wayback_title_def
        set_title_def log_to_def log_rejections_def sentinel_net_def untitled_crawl_def
        titled_crawl_def)
qed

subsection \<open>Batches\<close>







































text \<open>
  As modelled, the crawl information stage and the download stage never throw: whatever
  fails in them is a rejected operation of a group. The \<^verbatim>\<open>catch\<close> blocks of \<^verbatim>\<open>process\<close>
  around them are reached only by a stage that behaves otherwise.
\<close>

lemma modelled_stages_return:
  "snd (this_fetchWARCsCrawlInfo (Preparator_methods other net rt sha1) st) = None"
  "snd (this_fetchWARCs (Preparator_methods other net rt sha1) st) = None"
  by (simp_all add: Preparator_methods_def)

end
